theory Spec2Isabelle
  imports Main
begin

section \<open>Go strings as byte lists\<close>

text \<open>
  A Go \<^verbatim>\<open>string\<close> is a sequence of bytes, modelled as \<^typ>\<open>string\<close> (a list of 8-bit
  characters).  The three functions of package \<^verbatim>\<open>strings\<close> that the sources call are
  written out: \<^verbatim>\<open>HasPrefix\<close>, \<^verbatim>\<open>Contains\<close> and \<^verbatim>\<open>ReplaceAll\<close>.  The last one
  replaces the non-overlapping occurrences of \<^verbatim>\<open>old\<close> from left to right, resuming the
  search behind each replaced occurrence.  The sources only ever pass a non-empty
  \<^verbatim>\<open>old\<close>; for an empty one the model leaves the string as it is.
\<close>

fun HasPrefix :: "string \<Rightarrow> string \<Rightarrow> bool" where
  "HasPrefix s [] = True"
| "HasPrefix [] (p # ps) = False"
| "HasPrefix (c # cs) (p # ps) = (c = p \<and> HasPrefix cs ps)"

fun Contains :: "string \<Rightarrow> string \<Rightarrow> bool" where
  "Contains [] sub = (sub = [])"
| "Contains (c # cs) sub = (HasPrefix (c # cs) sub \<or> Contains cs sub)"

function ReplaceAll :: "string \<Rightarrow> string \<Rightarrow> string \<Rightarrow> string" where
  "ReplaceAll [] old new = []"
| "ReplaceAll (c # cs) old new =
     (if old \<noteq> [] \<and> HasPrefix (c # cs) old
      then new @ ReplaceAll (drop (length old) (c # cs)) old new
      else c # ReplaceAll cs old new)"
  by pat_completeness auto
termination
  by (relation "measure (\<lambda>(s, old, new). length s)") auto

abbreviation quote :: char where
  "quote \<equiv> CHR 0x27"

abbreviation backslash :: char where
  "backslash \<equiv> CHR 0x5C"

abbreviation newline :: char where
  "newline \<equiv> CHR 0x0A"


section \<open>Package shell: escaping, identifier validation, path sanitising\<close>

text \<open>
  \<^verbatim>\<open>isSafeString\<close> ranges over the runes of the string.  Every rune it accepts is a
  single ASCII byte, and a byte from \<^verbatim>\<open>0x80\<close> on belongs to a rune that it refuses
  (a multi-byte code point, or the replacement rune of an invalid sequence), so the
  test over the bytes decides the same strings.
\<close>

definition isSafeRune :: "char \<Rightarrow> bool" where
  "isSafeRune r \<longleftrightarrow>
     (97 \<le> (of_char r :: nat) \<and> (of_char r :: nat) \<le> 122) \<or>
     (65 \<le> (of_char r :: nat) \<and> (of_char r :: nat) \<le> 90) \<or>
     (48 \<le> (of_char r :: nat) \<and> (of_char r :: nat) \<le> 57) \<or>
     r = CHR ''-'' \<or> r = CHR ''_'' \<or> r = CHR ''.'' \<or> r = CHR ''/''"

definition isSafeString :: "string \<Rightarrow> bool" where
  "isSafeString s =
     (if s = [] then False
      else if Contains s ''..'' then False
      else list_all isSafeRune s)"

definition ShellEscape :: "string \<Rightarrow> string" where
  "ShellEscape s =
     (if isSafeString s then s
      else [quote] @ ReplaceAll s [quote] [quote, backslash, quote, quote] @ [quote])"

definition isNameRune :: "char \<Rightarrow> bool" where
  "isNameRune r \<longleftrightarrow>
     (97 \<le> (of_char r :: nat) \<and> (of_char r :: nat) \<le> 122) \<or>
     (65 \<le> (of_char r :: nat) \<and> (of_char r :: nat) \<le> 90) \<or>
     (48 \<le> (of_char r :: nat) \<and> (of_char r :: nat) \<le> 57) \<or>
     r = CHR ''-'' \<or> r = CHR ''_'' \<or> r = CHR ''.''"

definition ValidateVolumeName :: "string \<Rightarrow> bool" where
  "ValidateVolumeName name =
     (if name = [] \<or> length name > 255 then False
      else if hd name = CHR ''-'' \<or> hd name = CHR ''.'' then False
      else if Contains name ''..'' \<or> Contains name ''/'' \<or> Contains name [backslash] then False
      else list_all isNameRune name)"

text \<open>
  The loop of \<^verbatim>\<open>SanitizePathForRemote\<close> that replaces \<^verbatim>\<open>//\<close> by \<^verbatim>\<open>/\<close> while the
  path still contains \<^verbatim>\<open>//\<close>; each round shortens the path.
\<close>

lemma HasPrefix_length: "HasPrefix s p \<Longrightarrow> length p \<le> length s"
  by (induction s p rule: HasPrefix.induct) auto

lemma ReplaceAll_length_le:
  "length new \<le> length old \<Longrightarrow> length (ReplaceAll s old new) \<le> length s"
proof (induction s old new rule: ReplaceAll.induct)
  case (1 old new)
  then show ?case by simp
next
  case (2 c cs old new)
  show ?case
  proof (cases "old \<noteq> [] \<and> HasPrefix (c # cs) old")
    case True
    then have "HasPrefix (c # cs) old" by simp
    then have "length old \<le> length (c # cs)" by (rule HasPrefix_length)
    moreover have "length (ReplaceAll (drop (length old) (c # cs)) old new)
                     \<le> length (drop (length old) (c # cs))"
      using "2.IH"(1) True "2.prems" by simp
    ultimately show ?thesis using True "2.prems" by simp
  next
    case False
    then show ?thesis using "2.IH"(2) "2.prems" by auto
  qed
qed

lemma ReplaceAll_length_less:
  "Contains s old \<Longrightarrow> old \<noteq> [] \<Longrightarrow> length new < length old
     \<Longrightarrow> length (ReplaceAll s old new) < length s"
proof (induction s old new rule: ReplaceAll.induct)
  case (1 old new)
  then show ?case by simp
next
  case (2 c cs old new)
  show ?case
  proof (cases "HasPrefix (c # cs) old")
    case True
    have "length (ReplaceAll (drop (length old) (c # cs)) old new)
            \<le> length (drop (length old) (c # cs))"
      using "2.prems"(3) by (intro ReplaceAll_length_le) simp
    moreover have "length old \<le> length (c # cs)"
      using True by (rule HasPrefix_length)
    ultimately show ?thesis
      using True "2.prems"(2,3) by simp
  next
    case False
    then have "Contains cs old" using "2.prems"(1) by simp
    then have "length (ReplaceAll cs old new) < length cs"
      using "2.IH"(2) False "2.prems"(2,3) by simp
    then show ?thesis using False by simp
  qed
qed

function collapseSlashes :: "string \<Rightarrow> string" where
  "collapseSlashes path =
     (if Contains path ''//'' then collapseSlashes (ReplaceAll path ''//'' ''/'') else path)"
  by pat_completeness auto
termination
  by (relation "measure length") (auto intro: ReplaceAll_length_less)

declare collapseSlashes.simps [simp del]

definition SanitizePathForRemote :: "string \<Rightarrow> string" where
  "SanitizePathForRemote path =
     (let p1 = ReplaceAll path ''..'' '''';
          p2 = (if \<not> HasPrefix p1 ''/'' then ''/'' @ p1 else p1)
      in collapseSlashes p2)"


subsection \<open>The reading of a shell word\<close>

text \<open>
  The contract of \<^verbatim>\<open>ShellEscape\<close> speaks of what the remote shell makes of the
  escaped string.  \<open>shWord\<close> is that reading, after the quoting rules of the POSIX
  shell: between single quotes every character stands for itself up to the closing
  quote; outside quotes a backslash keeps the next character (and swallows a newline),
  adjacent pieces are concatenated, and a character that is an operator, a blank or
  the start of an expansion or a pattern does not stand for itself, so the string is
  then not one literal word and the reading gives \<open>None\<close>, as it does for a quote
  that is never closed.
\<close>

definition shSpecial :: "char \<Rightarrow> bool" where
  "shSpecial c =
     (c \<in> set [CHR ''|'', CHR ''&'', CHR '';'', CHR ''<'', CHR ''>'', CHR ''('', CHR '')'',
               CHR ''$'', CHR 0x60, CHR 0x22, CHR '' '', CHR 0x09, newline,
               CHR ''*'', CHR ''?'', CHR ''['', CHR ''#'', CHR ''~'', CHR ''='', CHR ''%'',
               quote, backslash])"

fun shWord :: "bool \<Rightarrow> string \<Rightarrow> string option" where
  "shWord True [] = None"
| "shWord True (c # cs) =
     (if c = quote then shWord False cs else map_option ((#) c) (shWord True cs))"
| "shWord False [] = Some []"
| "shWord False (c # cs) =
     (if c = quote then shWord True cs
      else if c = backslash then
        (case cs of
           [] \<Rightarrow> None
         | d # ds \<Rightarrow> if d = newline then shWord False ds
                    else map_option ((#) d) (shWord False ds))
      else if shSpecial c then None
      else map_option ((#) c) (shWord False cs))"

definition shellToken :: "string \<Rightarrow> string option" where
  "shellToken w = (if w = [] then None else shWord False w)"


section \<open>Package ssh: commands on the remote host\<close>

text \<open>
  The remote host is outside the program.  What it answers to a command is a field of
  the environment; the answer may depend on everything that happened before, which is
  the trace.  The trace records every command handed to \<^verbatim>\<open>RunCommand\<close>, every local
  \<^verbatim>\<open>os.RemoveAll\<close>, the warnings and errors written to the log, and the closing of
  the connection.  (Messages of the levels debug and info, and the uploads over SFTP,
  are not recorded.)
\<close>

datatype event =
    Remote string
  | LocalRemoveAll string
  | LogWarn string
  | LogError string
  | CloseSSH

datatype run_outcome =
    SessionFailed string
  | RunFailed string string
  | RunOk string

record Client =
  remoteSudo :: bool
  respond :: "event list \<Rightarrow> string \<Rightarrow> run_outcome"

definition RunCommand :: "Client \<Rightarrow> string \<Rightarrow> event list \<Rightarrow> (string + string) \<times> event list" where
  "RunCommand c cmd tr =
     (case respond c tr cmd of
        SessionFailed e \<Rightarrow> (Inl (''failed to create session: '' @ e), tr @ [Remote cmd])
      | RunFailed e err \<Rightarrow> (Inl (''command failed: '' @ e @ '', stderr: '' @ err), tr @ [Remote cmd])
      | RunOk out \<Rightarrow> (Inr out, tr @ [Remote cmd]))"

definition RunDockerCommand :: "Client \<Rightarrow> string list \<Rightarrow> event list \<Rightarrow> (string + string) \<times> event list" where
  "RunDockerCommand c args tr =
     RunCommand c (foldl (\<lambda>cmd arg. cmd @ '' '' @ arg)
                         (if remoteSudo c then ''sudo docker'' else ''docker'') args) tr"

definition CreateDirectory :: "Client \<Rightarrow> string \<Rightarrow> event list \<Rightarrow> (string + unit) \<times> event list" where
  "CreateDirectory c path tr =
     (let safePath = SanitizePathForRemote path;
          cmd = ''mkdir -p '' @ ShellEscape safePath
      in case RunCommand c cmd tr of
           (Inl e, tr') \<Rightarrow> (Inl (''failed to create directory '' @ path @ '' on remote host: '' @ e), tr')
         | (Inr out, tr') \<Rightarrow> (Inr (), tr'))"

definition RemoveFile :: "Client \<Rightarrow> string \<Rightarrow> event list \<Rightarrow> (string + unit) \<times> event list" where
  "RemoveFile c path tr =
     (let safePath = SanitizePathForRemote path;
          cmd = ''rm -f '' @ ShellEscape safePath
      in case RunCommand c cmd tr of
           (Inl e, tr') \<Rightarrow> (Inl (''failed to remove file '' @ path @ '' on remote host: '' @ e), tr')
         | (Inr out, tr') \<Rightarrow> (Inr (), tr'))"

text \<open>
  The six paths that \<^verbatim>\<open>RemoveDirectory\<close> compares the sanitised path with, as its test
  \<^verbatim>\<open>TestRemoveDirectory_SystemDirectoryProtection\<close> lists them.
\<close>

definition systemDirs :: "string list" where
  "systemDirs = [''/'', ''/bin'', ''/etc'', ''/usr'', ''/var'', ''/home'']"

definition RemoveDirectory :: "Client \<Rightarrow> string \<Rightarrow> event list \<Rightarrow> (string + unit) \<times> event list" where
  "RemoveDirectory c path tr =
     (let safePath = SanitizePathForRemote path
      in if safePath = ''/'' \<or> safePath = ''/bin'' \<or> safePath = ''/etc'' \<or>
            safePath = ''/usr'' \<or> safePath = ''/var'' \<or> safePath = ''/home''
         then (Inl (''refusing to delete system directory: '' @ safePath), tr)
         else
           (let cmd = ''rm -rf '' @ ShellEscape safePath
            in case RunCommand c cmd tr of
                 (Inl e, tr') \<Rightarrow> (Inl (''failed to remove directory '' @ path @ '' on remote host: '' @ e), tr')
               | (Inr out, tr') \<Rightarrow> (Inr (), tr')))"

text \<open>
  \<open>noDotDot\<close> says that no two neighbouring characters are both dots; it is the
  recursive form of ``does not contain \<^verbatim>\<open>..\<close>'' that the inductions below use.
\<close>


fun noDotDot :: "string \<Rightarrow> bool" where
  "noDotDot (a # b # s) = (\<not> (a = CHR ''.'' \<and> b = CHR ''.'') \<and> noDotDot (b # s))"
| "noDotDot s = True"


text \<open>A client whose remote host answers every command with success and no output.\<close>

definition idleClient :: Client where
  "idleClient = \<lparr>remoteSudo = False, respond = (\<lambda>tr cmd. RunOk [])\<rparr>"


section \<open>Package ssh: host key verification\<close>

text \<open>
  A record of the trust file names a host and a key; a key is its algorithm and its
  material.  The function that \<^verbatim>\<open>knownhosts.New\<close> returns belongs to the library
  \<^verbatim>\<open>golang.org/x/crypto/ssh/knownhosts\<close>, so \<^verbatim>\<open>acceptNewKeyCallback\<close> takes it as a
  parameter.  Its answer is \<open>None\<close> for \<^verbatim>\<open>nil\<close>, a \<^verbatim>\<open>*KeyError\<close> with the keys it knows
  for the host, or an error of another type.
\<close>

record PublicKey =
  keyType :: string
  keyBlob :: string

record TrustRecord =
  recHost :: string
  recKey :: PublicKey

datatype callback_error =
    KeyError "PublicKey list"
  | OtherError string

text \<open>The text of \<^verbatim>\<open>err.Error()\<close> for the two kinds of error.\<close>

fun errorText :: "callback_error \<Rightarrow> string" where
  "errorText (KeyError want) =
     (if want = [] then ''knownhosts: key is unknown'' else ''knownhosts: key mismatch'')"
| "errorText (OtherError e) = e"

text \<open>
  The check of the library over the records loaded from the trust file, for records of
  the shape above (plain host names, no markers): the keys recorded for the host are
  collected; the answer is \<^verbatim>\<open>nil\<close> when the presented key is one of them, and a
  \<^verbatim>\<open>*KeyError\<close> holding them otherwise, which is empty for a host without records.
\<close>

definition knownhostsCheck :: "TrustRecord list \<Rightarrow> string \<Rightarrow> PublicKey \<Rightarrow> callback_error option" where
  "knownhostsCheck db hostname key =
     (let want = map recKey (filter (\<lambda>r. recHost r = hostname) db)
      in if key \<in> set want then None else Some (KeyError want))"

text \<open>
  The trust file holds its records; whether it can be opened for appending and written
  to is decided outside the program.
\<close>

record KnownHostsFile =
  records :: "TrustRecord list"
  openError :: "string option"
  writeError :: "string option"

record HostKeyVerifier =
  knownHostsPath :: string
  strictChecking :: bool
  acceptNewKeys :: bool

definition addHostKey ::
  "HostKeyVerifier \<Rightarrow> string \<Rightarrow> PublicKey \<Rightarrow> KnownHostsFile \<Rightarrow> string option \<times> KnownHostsFile" where
  "addHostKey v hostname key f =
     (case openError f of
        Some e \<Rightarrow> (Some (''failed to open known_hosts: '' @ e), f)
      | None \<Rightarrow>
          (case writeError f of
             Some e \<Rightarrow> (Some (''failed to write to known_hosts: '' @ e), f)
           | None \<Rightarrow> (None, f\<lparr>records := records f @ [\<lparr>recHost = hostname, recKey = key\<rparr>]\<rparr>)))"

text \<open>
  The function value that \<^verbatim>\<open>acceptNewKeyCallback\<close> returns, applied to a host name and
  a key.  The result is the error (\<open>None\<close> for \<^verbatim>\<open>nil\<close>) and the trust file afterwards.
  The verb \<^verbatim>\<open>%w\<close> of \<^verbatim>\<open>fmt.Errorf\<close> prints the text of the wrapped error, and
  \<^verbatim>\<open>%!w(<nil>)\<close> for a \<^verbatim>\<open>nil\<close> one.  The lines written to standard error are left out.
\<close>

definition hostKeyChanged :: "HostKeyVerifier \<Rightarrow> string \<Rightarrow> callback_error \<Rightarrow> string" where
  "hostKeyChanged v hostname err =
     ''WARNING: REMOTE HOST IDENTIFICATION HAS CHANGED!'' @ [newline] @
     ''IT IS POSSIBLE THAT SOMEONE IS DOING SOMETHING NASTY!'' @ [newline] @
     ''Host key for '' @ hostname @ '' has changed.'' @ [newline] @
     ''Remove old key from '' @ knownHostsPath v @ '' and try again.'' @ [newline] @
     ''Or use ssh-keygen -R '' @ hostname @ [newline] @ errorText err"

definition acceptNewKeyCallback ::
  "HostKeyVerifier \<Rightarrow> (string \<Rightarrow> PublicKey \<Rightarrow> callback_error option) \<Rightarrow>
   string \<Rightarrow> PublicKey \<Rightarrow> KnownHostsFile \<Rightarrow> string option \<times> KnownHostsFile" where
  "acceptNewKeyCallback v callback hostname key f =
     (case callback hostname key of
        Some err \<Rightarrow>
          (if (case err of KeyError want \<Rightarrow> length want > 0 | OtherError e \<Rightarrow> False)
           then (Some (hostKeyChanged v hostname err), f)
           else
             (case addHostKey v hostname key f of
                (Some e, f') \<Rightarrow> (Some (''failed to add host key: '' @ e), f')
              | (None, f') \<Rightarrow> (None, f')))
      | None \<Rightarrow>
          (Some (''unexpected host key verification error for '' @ hostname @ '': %!w(<nil>)''), f))"

text \<open>
  The verification as \<^verbatim>\<open>GetCallback\<close> sets it up in accept-new mode: the library's
  check over the records that the trust file holds.
\<close>

definition acceptNewVerify ::
  "HostKeyVerifier \<Rightarrow> string \<Rightarrow> PublicKey \<Rightarrow> KnownHostsFile \<Rightarrow> string option \<times> KnownHostsFile" where
  "acceptNewVerify v hostname key f =
     acceptNewKeyCallback v (knownhostsCheck (records f)) hostname key f"

definition exampleKey :: PublicKey where
  "exampleKey = \<lparr>keyType = ''ssh-ed25519'', keyBlob = ''AAAAC3NzaC1lZDI1NTE5AAAAIA''\<rparr>"


definition exampleVerifier :: HostKeyVerifier where
  "exampleVerifier =
     \<lparr>knownHostsPath = ''/home/u/.ssh/known_hosts'', strictChecking = False, acceptNewKeys = True\<rparr>"

definition exampleFile :: KnownHostsFile where
  "exampleFile =
     \<lparr>records = [\<lparr>recHost = ''example.com:22'', recKey = exampleKey\<rparr>],
      openError = None, writeError = None\<rparr>"


section \<open>Package docker: volume discovery\<close>

text \<open>
  What \<^verbatim>\<open>docker inspect\<close> and \<^verbatim>\<open>docker system df\<close> answer is decided by the Docker
  engine: the outcomes of \<^verbatim>\<open>InspectContainer\<close> and of \<^verbatim>\<open>GetVolumeSize\<close> are the two
  fields of the local \<open>Docker\<close> client.
\<close>

record MountInfo =
  mountType :: string
  mountName :: string
  mountSource :: string
  mountDestination :: string

record ContainerInfo =
  containerID :: string
  containerName :: string
  containerMounts :: "MountInfo list"

record VolumeInfo =
  volName :: string
  volContainer :: string
  volMountPath :: string
  volSize :: string
  volSizeBytes :: int
  volSelected :: bool

record Docker =
  InspectContainer :: "string \<Rightarrow> string + ContainerInfo"
  GetVolumeSize :: "string \<Rightarrow> string + (string \<times> int)"

definition ListVolumes :: "Docker \<Rightarrow> string \<Rightarrow> string + string list" where
  "ListVolumes d name =
     (case InspectContainer d name of
        Inl e \<Rightarrow> Inl e
      | Inr info \<Rightarrow>
          Inr (map mountName
                 (filter (\<lambda>m. mountType m = ''volume'' \<and> mountName m \<noteq> '''')
                         (containerMounts info))))"

definition GetVolumeMountPoints :: "Docker \<Rightarrow> string \<Rightarrow> string \<Rightarrow> string + string" where
  "GetVolumeMountPoints d cname vname =
     (case InspectContainer d cname of
        Inl e \<Rightarrow> Inl e
      | Inr info \<Rightarrow>
          (case find (\<lambda>m. mountType m = ''volume'' \<and> mountName m = vname) (containerMounts info) of
             Some m \<Rightarrow> Inr (mountDestination m)
           | None \<Rightarrow> Inl (''volume '' @ vname @ '' not found in container '' @ cname)))"

text \<open>
  \<^verbatim>\<open>GetAllVolumesInfo\<close> fills a Go map from volume names to entries and returns its
  values.  The map is an association list here, a new name going to its end, so the
  result lists the volumes in the order of their first reference; Go returns them in
  an order of its own choosing, and the properties below do not depend on the order.
\<close>

definition newVolumeInfo :: "Docker \<Rightarrow> string \<Rightarrow> string \<Rightarrow> VolumeInfo" where
  "newVolumeInfo d cname vname =
     (let mountPath = (case GetVolumeMountPoints d cname vname of Inl e \<Rightarrow> ''N/A'' | Inr p \<Rightarrow> p);
          (size, sizeBytes) = (case GetVolumeSize d vname of Inl e \<Rightarrow> (''Unknown'', 0) | Inr r \<Rightarrow> r)
      in \<lparr>volName = vname, volContainer = cname, volMountPath = mountPath,
          volSize = size, volSizeBytes = sizeBytes, volSelected = True\<rparr>)"

fun addVolumes ::
  "Docker \<Rightarrow> string \<Rightarrow> string list \<Rightarrow> (string \<times> VolumeInfo) list \<Rightarrow> (string \<times> VolumeInfo) list" where
  "addVolumes d cname [] volumeMap = volumeMap"
| "addVolumes d cname (vname # rest) volumeMap =
     (if map_of volumeMap vname \<noteq> None then addVolumes d cname rest volumeMap
      else addVolumes d cname rest (volumeMap @ [(vname, newVolumeInfo d cname vname)]))"

fun collectVolumes ::
  "Docker \<Rightarrow> string list \<Rightarrow> (string \<times> VolumeInfo) list \<Rightarrow> string + (string \<times> VolumeInfo) list" where
  "collectVolumes d [] volumeMap = Inr volumeMap"
| "collectVolumes d (cname # rest) volumeMap =
     (case ListVolumes d cname of
        Inl e \<Rightarrow> Inl (''failed to list volumes for container '' @ cname @ '': '' @ e)
      | Inr volumes \<Rightarrow> collectVolumes d rest (addVolumes d cname volumes volumeMap))"

definition GetAllVolumesInfo :: "Docker \<Rightarrow> string list \<Rightarrow> string + VolumeInfo list" where
  "GetAllVolumesInfo d containerNames =
     (case collectVolumes d containerNames [] of
        Inl e \<Rightarrow> Inl e
      | Inr volumeMap \<Rightarrow> Inr (map snd volumeMap))"

text \<open>
  For the statement of the deduplication: the names a container refers to, and the
  first container of a list that refers to a name.
\<close>

definition volumesOf :: "Docker \<Rightarrow> string \<Rightarrow> string list" where
  "volumesOf d cname = (case ListVolumes d cname of Inl e \<Rightarrow> [] | Inr vs \<Rightarrow> vs)"

definition firstOwner :: "Docker \<Rightarrow> string list \<Rightarrow> string \<Rightarrow> string option" where
  "firstOwner d containerNames vname = find (\<lambda>c. vname \<in> set (volumesOf d c)) containerNames"

text \<open>The engine of the scenario: containers \<^verbatim>\<open>web\<close> and \<^verbatim>\<open>worker\<close> both mount \<^verbatim>\<open>shared\<close>.\<close>

definition sharedDocker :: Docker where
  "sharedDocker =
     \<lparr>InspectContainer =
        (\<lambda>name.
           if name = ''web'' then
             Inr \<lparr>containerID = ''1'', containerName = ''web'',
                  containerMounts =
                    [\<lparr>mountType = ''volume'', mountName = ''shared'',
                      mountSource = ''/var/lib/docker/volumes/shared/_data'',
                      mountDestination = ''/srv''\<rparr>]\<rparr>
           else if name = ''worker'' then
             Inr \<lparr>containerID = ''2'', containerName = ''worker'',
                  containerMounts =
                    [\<lparr>mountType = ''bind'', mountName = '''',
                      mountSource = ''/etc/app'', mountDestination = ''/etc/app''\<rparr>,
                     \<lparr>mountType = ''volume'', mountName = ''shared'',
                      mountSource = ''/var/lib/docker/volumes/shared/_data'',
                      mountDestination = ''/data''\<rparr>]\<rparr>
           else Inl ''container not found''),
      GetVolumeSize = (\<lambda>name. Inr (''1.5MB'', 1572864))\<rparr>"


section \<open>Package utils: the space estimate\<close>

text \<open>
  \<^verbatim>\<open>CalculateRequiredSpace\<close> converts its \<^verbatim>\<open>int64\<close> to \<^verbatim>\<open>float64\<close>, multiplies by the
  \<^verbatim>\<open>float64\<close> nearest to 1.10 and converts back.  A finite \<^verbatim>\<open>float64\<close> is a pair of an
  integer mantissa of at most 53 bits and an exponent, standing for
  \<open>mantissa * 2 ^ exponent\<close>; every operation computes the exact result and rounds it
  to 53 bits, to the nearest value and to the even mantissa in a tie.  The numbers met
  here are far from the ends of the exponent range, so neither overflow nor subnormal
  numbers occur.
\<close>

fun bitlen :: "nat \<Rightarrow> nat" where
  "bitlen n = (if n = 0 then 0 else Suc (bitlen (n div 2)))"

declare bitlen.simps [simp del]

text \<open>\<open>n / 2 ^ s\<close> rounded to the nearest integer, ties to even.\<close>

definition roundShift :: "nat \<Rightarrow> nat \<Rightarrow> nat" where
  "roundShift n s =
     (let q = n div 2 ^ s; r = n mod 2 ^ s
      in if 2 * r > 2 ^ s \<or> (2 * r = 2 ^ s \<and> odd q) then q + 1 else q)"

type_synonym float64 = "bool \<times> nat \<times> int"

text \<open>Sign, magnitude and exponent of the exact value, rounded to 53 bits.\<close>

definition round53 :: "bool \<Rightarrow> nat \<Rightarrow> int \<Rightarrow> float64" where
  "round53 neg m e =
     (if bitlen m \<le> 53 then (neg, m, e)
      else (neg, roundShift m (bitlen m - 53), e + int (bitlen m - 53)))"

definition float64_of_int :: "int \<Rightarrow> float64" where
  "float64_of_int i = round53 (i < 0) (nat \<bar>i\<bar>) 0"

definition float64_mul :: "float64 \<Rightarrow> float64 \<Rightarrow> float64" where
  "float64_mul x y =
     (case (x, y) of ((nx, mx, ex), (ny, my, ey)) \<Rightarrow> round53 (nx \<noteq> ny) (mx * my) (ex + ey))"

text \<open>
  The conversion to \<^verbatim>\<open>int64\<close> drops the fraction.  For a value outside the range of
  \<^verbatim>\<open>int64\<close> the language leaves the result to the implementation; the model gives the
  smallest \<^verbatim>\<open>int64\<close> there, as the amd64 instruction does.
\<close>

definition int64_of_float64 :: "float64 \<Rightarrow> int" where
  "int64_of_float64 x =
     (case x of (neg, m, e) \<Rightarrow>
        (let mag = (if e \<ge> 0 then int m * 2 ^ nat e else int m div 2 ^ nat (- e));
             v = (if neg then - mag else mag)
         in if - (2 ^ 63) \<le> v \<and> v < 2 ^ 63 then v else - (2 ^ 63)))"

text \<open>The constant 1.10 as a \<^verbatim>\<open>float64\<close>: \<^verbatim>\<open>0x3FF199999999999A\<close>.\<close>

definition buffer :: float64 where
  "buffer = (False, 4953959590107546, - 52)"

definition CalculateRequiredSpace :: "int \<Rightarrow> int" where
  "CalculateRequiredSpace volumeSizeBytes =
     int64_of_float64 (float64_mul (float64_of_int volumeSizeBytes) buffer)"


section \<open>Package migrator: import, cleanup and the migration\<close>

text \<open>
  The functions \<^verbatim>\<open>Dir\<close>, \<^verbatim>\<open>Base\<close> and \<^verbatim>\<open>Join\<close> of the standard package
  \<^verbatim>\<open>path/filepath\<close> are taken as they come.  A log event holds the message and, behind
  a colon, the error attached to it.
\<close>

record filepath =
  Dir :: "string \<Rightarrow> string"
  Base :: "string \<Rightarrow> string"
  Join :: "string \<Rightarrow> string \<Rightarrow> string"

definition importCommand :: "filepath \<Rightarrow> string \<Rightarrow> string \<Rightarrow> string" where
  "importCommand fp volumeName archivePath =
     ''run --rm -v '' @ volumeName @ '':/data -v '' @ Dir fp archivePath @
     '':/backup alpine tar xzf /backup/'' @ Base fp archivePath @ '' -C /data''"

definition ImportVolume ::
  "filepath \<Rightarrow> Client \<Rightarrow> string \<Rightarrow> string \<Rightarrow> event list \<Rightarrow> string option \<times> event list" where
  "ImportVolume fp c volumeName archivePath tr =
     (if \<not> ValidateVolumeName volumeName
      then (Some (''invalid volume name '' @ [quote] @ volumeName @ [quote] @
                  '': must contain only alphanumeric characters, dashes, underscores, and dots''), tr)
      else
        (case RunDockerCommand c [''volume create '' @ volumeName] tr of
           (Inl e, tr1) \<Rightarrow>
             (Some (''failed to create volume '' @ volumeName @ '' on remote: '' @ e), tr1)
         | (Inr created, tr1) \<Rightarrow>
             (case RunDockerCommand c [importCommand fp volumeName archivePath] tr1 of
                (Inl e, tr2) \<Rightarrow>
                  (case RunDockerCommand c [''volume rm '' @ volumeName] tr2 of
                     (Inl cleanupErr, tr3) \<Rightarrow>
                       (Some (''failed to import data into volume '' @ volumeName @ '': '' @ e),
                        tr3 @ [LogWarn (''Failed to cleanup volume after import failure: '' @ cleanupErr)])
                   | (Inr removed, tr3) \<Rightarrow>
                       (Some (''failed to import data into volume '' @ volumeName @ '': '' @ e), tr3))
              | (Inr imported, tr2) \<Rightarrow> (None, tr2))))"

text \<open>
  \<^verbatim>\<open>archivePaths\<close> is a Go map from volume names to archive paths; the loops over it
  take its entries in the order of the association list.
\<close>

fun ImportVolumes ::
  "filepath \<Rightarrow> Client \<Rightarrow> (string \<times> string) list \<Rightarrow> string \<Rightarrow> event list \<Rightarrow>
   string option \<times> event list" where
  "ImportVolumes fp c [] remoteTempDir tr = (None, tr)"
| "ImportVolumes fp c ((volumeName, archivePath) # rest) remoteTempDir tr =
     (case ImportVolume fp c volumeName (Join fp remoteTempDir (Base fp archivePath)) tr of
        (Some e, tr') \<Rightarrow> (Some (''failed to import volume '' @ volumeName @ '': '' @ e), tr')
      | (None, tr') \<Rightarrow> ImportVolumes fp c rest remoteTempDir tr')"

text \<open>
  The rest of the world of a migration: the two constructors, the selection dialogue,
  the free space of the local disk, the reading of the output of \<^verbatim>\<open>df\<close>, the export of
  the volumes to local archives, the upload of one file, the removal of a local
  directory tree, and the rendering of a byte count (\<^verbatim>\<open>FormatBytes\<close>).  Of the
  configuration, the fields that \<^verbatim>\<open>Migrate\<close> only passes on to the constructor of the
  SSH client and to the upload are left out.
\<close>

record Config =
  Containers :: "string list"
  TempDir :: string
  RemoteTempDir :: string
  Interactive :: bool
  Verbose :: bool
  DryRun :: bool
  NoCleanup :: bool
  Force :: bool

record Env =
  NewDockerClient :: "string + Docker"
  NewSSHClient :: "string + Client"
  SelectVolumes :: "VolumeInfo list \<Rightarrow> string + VolumeInfo list"
  GetLocalDiskSpace :: "string \<Rightarrow> string + nat"
  parseDf :: "string \<Rightarrow> string + nat"
  exportVolumes :: "string list \<Rightarrow> string + (string \<times> string) list"
  TransferFile :: "event list \<Rightarrow> string \<Rightarrow> string \<Rightarrow> string option"
  osRemoveAll :: "event list \<Rightarrow> string \<Rightarrow> string option"
  fpath :: filepath
  FormatBytes :: "int \<Rightarrow> string"

definition CleanupLocal :: "Env \<Rightarrow> string \<Rightarrow> event list \<Rightarrow> string option \<times> event list" where
  "CleanupLocal env tempDir tr =
     (case osRemoveAll env tr tempDir of
        Some e \<Rightarrow> (Some (''failed to clean up local temp directory: '' @ e), tr @ [LocalRemoveAll tempDir])
      | None \<Rightarrow> (None, tr @ [LocalRemoveAll tempDir]))"

definition CleanupRemote :: "Client \<Rightarrow> string \<Rightarrow> event list \<Rightarrow> string option \<times> event list" where
  "CleanupRemote c remoteTempDir tr =
     (case RemoveDirectory c remoteTempDir tr of
        (Inl e, tr') \<Rightarrow> (Some (''failed to clean up remote temp directory: '' @ e), tr')
      | (Inr done, tr') \<Rightarrow> (None, tr'))"

text \<open>Integers of 64 bits: the wrap-around of \<^verbatim>\<open>int64\<close> and the conversion to \<^verbatim>\<open>uint64\<close>.\<close>

definition wrap64 :: "int \<Rightarrow> int" where
  "wrap64 i = (i + 2 ^ 63) mod 2 ^ 64 - 2 ^ 63"

definition uint64 :: "int \<Rightarrow> nat" where
  "uint64 i = nat (i mod 2 ^ 64)"

fun digits :: "nat \<Rightarrow> string" where
  "digits n = (if n < 10 then [char_of (48 + n)] else digits (n div 10) @ [char_of (48 + n mod 10)])"

declare digits.simps [simp del]

definition ValidateDiskSpace :: "(int \<Rightarrow> string) \<Rightarrow> string \<Rightarrow> nat \<Rightarrow> nat \<Rightarrow> string option" where
  "ValidateDiskSpace fmt location required available =
     (if available < required
      then Some (''insufficient disk space on '' @ location @ '': required '' @ digits required @
                 '' bytes ('' @ fmt (wrap64 (int required)) @ ''), available '' @ digits available @
                 '' bytes ('' @ fmt (wrap64 (int available)) @ '')'')
      else None)"

definition GetRemoteDiskSpace ::
  "Env \<Rightarrow> Client \<Rightarrow> string \<Rightarrow> event list \<Rightarrow> (string + nat) \<times> event list" where
  "GetRemoteDiskSpace env c remotePath tr =
     (case RunCommand c (''df -Pk '' @ remotePath) tr of
        (Inl e, tr') \<Rightarrow> (Inl (''failed to get remote disk space: '' @ e), tr')
      | (Inr output, tr') \<Rightarrow> (parseDf env output, tr'))"

text \<open>The validation of the disk space, skipped with \<^verbatim>\<open>Force\<close> (phase 4.5 of \<^verbatim>\<open>Migrate\<close>).\<close>

definition validateSpace ::
  "Config \<Rightarrow> Env \<Rightarrow> Client \<Rightarrow> VolumeInfo list \<Rightarrow> event list \<Rightarrow> string option \<times> event list" where
  "validateSpace cfg env c volumes tr =
     (if Force cfg then (None, tr @ [LogWarn ''Skipping disk space validation (--force enabled)''])
      else
        (let totalVolumeSize = foldl (\<lambda>total v. wrap64 (total + volSizeBytes v)) 0 volumes;
             estimatedArchiveSize = CalculateRequiredSpace totalVolumeSize;
             localCheck =
               (case GetLocalDiskSpace env (TempDir cfg) of
                  Inl e \<Rightarrow>
                    (None, if Verbose cfg then tr @ [LogWarn (''Could not check local disk space: '' @ e)] else tr)
                | Inr available \<Rightarrow>
                    (ValidateDiskSpace (FormatBytes env) ''local'' (uint64 estimatedArchiveSize) available, tr))
         in case localCheck of
              (Some e, tr1) \<Rightarrow> (Some (e @ '' (use --force to override)''), tr1)
            | (None, tr1) \<Rightarrow>
                (case GetRemoteDiskSpace env c (RemoteTempDir cfg) tr1 of
                   (Inl e, tr2) \<Rightarrow>
                     (None, if Verbose cfg then tr2 @ [LogWarn (''Could not check remote disk space: '' @ e)] else tr2)
                 | (Inr available, tr2) \<Rightarrow>
                     (case ValidateDiskSpace (FormatBytes env) ''remote'' (uint64 estimatedArchiveSize) available of
                        Some e \<Rightarrow> (Some (e @ '' (use --force to override)''), tr2)
                      | None \<Rightarrow> (None, tr2)))))"

fun transferEach ::
  "Config \<Rightarrow> Env \<Rightarrow> (string \<times> string) list \<Rightarrow> event list \<Rightarrow> string option \<times> event list" where
  "transferEach cfg env [] tr = (None, tr)"
| "transferEach cfg env ((volumeName, localPath) # rest) tr =
     (let remotePath = Join (fpath env) (RemoteTempDir cfg) (Base (fpath env) localPath)
      in case TransferFile env tr localPath remotePath of
           Some e \<Rightarrow> (Some (''failed to transfer volume '' @ volumeName @ '': '' @ e), tr)
         | None \<Rightarrow> transferEach cfg env rest tr)"

definition transferVolumes ::
  "Config \<Rightarrow> Env \<Rightarrow> Client \<Rightarrow> (string \<times> string) list \<Rightarrow> event list \<Rightarrow> string option \<times> event list" where
  "transferVolumes cfg env c archivePaths tr =
     (case CreateDirectory c (RemoteTempDir cfg) tr of
        (Inl e, tr') \<Rightarrow> (Some (''failed to create remote temp directory: '' @ e), tr')
      | (Inr done, tr') \<Rightarrow> transferEach cfg env archivePaths tr')"

text \<open>
  \<^verbatim>\<open>Migrate\<close> in three parts.  \<open>migratePrepare\<close> is the function up to and including the
  export: it either returns from \<^verbatim>\<open>Migrate\<close>, with the result and the trace of the run,
  or has exported the archives.  Once the connection is open, its closing is deferred,
  so every later return ends the trace with \<open>CloseSSH\<close>.  \<open>migrateDeliver\<close> is the
  transfer and the import.  \<open>deferredCleanup\<close> is the function deferred after the
  export when \<^verbatim>\<open>NoCleanup\<close> is off; it has no result and runs before the connection is
  closed.
\<close>

datatype prepared =
    Finished "string option \<times> event list"
  | Exported Client "(string \<times> string) list" "event list"

definition migratePrepare :: "Config \<Rightarrow> Env \<Rightarrow> prepared" where
  "migratePrepare cfg env =
     (case NewDockerClient env of
        Inl e \<Rightarrow> Finished (Some (''failed to initialize Docker client: '' @ e), [])
      | Inr dockerClient \<Rightarrow>
     (case NewSSHClient env of
        Inl e \<Rightarrow> Finished (Some (''failed to connect to remote host: '' @ e), [])
      | Inr sshClient \<Rightarrow>
     (case GetAllVolumesInfo dockerClient (Containers cfg) of
        Inl e \<Rightarrow> Finished (Some (''failed to discover volumes: '' @ e), [CloseSSH])
      | Inr volumes \<Rightarrow>
     (if volumes = [] then Finished (None, [LogWarn ''No volumes found to migrate'', CloseSSH])
      else
     (case (if Interactive cfg then SelectVolumes env volumes else Inr volumes) of
        Inl e \<Rightarrow> Finished (Some (''volume selection failed: '' @ e), [CloseSSH])
      | Inr selected \<Rightarrow>
     (case validateSpace cfg env sshClient selected [] of
        (Some e, tr) \<Rightarrow> Finished (Some e, tr @ [CloseSSH])
      | (None, tr) \<Rightarrow>
     (if DryRun cfg then Finished (None, tr @ [CloseSSH])
      else
     (case exportVolumes env (map volName selected) of
        Inl e \<Rightarrow> Finished (Some (''failed to export volumes: '' @ e), tr @ [CloseSSH])
      | Inr archivePaths \<Rightarrow> Exported sshClient archivePaths tr))))))))"

definition migrateDeliver ::
  "Config \<Rightarrow> Env \<Rightarrow> Client \<Rightarrow> (string \<times> string) list \<Rightarrow> event list \<Rightarrow> string option \<times> event list" where
  "migrateDeliver cfg env c archivePaths tr =
     (case transferVolumes cfg env c archivePaths tr of
        (Some e, tr1) \<Rightarrow> (Some (''failed to transfer volumes: '' @ e), tr1)
      | (None, tr1) \<Rightarrow>
          (case ImportVolumes (fpath env) c archivePaths (RemoteTempDir cfg) tr1 of
             (Some e, tr2) \<Rightarrow> (Some (''failed to import volumes: '' @ e), tr2)
           | (None, tr2) \<Rightarrow> (None, tr2)))"

definition deferredCleanup :: "Config \<Rightarrow> Env \<Rightarrow> Client \<Rightarrow> event list \<Rightarrow> event list" where
  "deferredCleanup cfg env c tr =
     (let tr1 = (case CleanupLocal env (TempDir cfg) tr of
                   (Some e, t) \<Rightarrow> t @ [LogError (''Failed to cleanup local temporary directory: '' @ e)]
                 | (None, t) \<Rightarrow> t)
      in case CleanupRemote c (RemoteTempDir cfg) tr1 of
           (Some e, t) \<Rightarrow> t @ [LogError (''Failed to cleanup remote temporary directory: '' @ e)]
         | (None, t) \<Rightarrow> t)"

definition Migrate :: "Config \<Rightarrow> Env \<Rightarrow> string option \<times> event list" where
  "Migrate cfg env =
     (case migratePrepare cfg env of
        Finished r \<Rightarrow> r
      | Exported sshClient archivePaths tr \<Rightarrow>
          (case migrateDeliver cfg env sshClient archivePaths tr of
             (result, tr') \<Rightarrow>
               (result,
                (if \<not> NoCleanup cfg then deferredCleanup cfg env sshClient tr' else tr') @ [CloseSSH])))"

text \<open>
  A run for the examples.  The remote host creates directories and volumes but fails
  every \<^verbatim>\<open>docker run\<close>, every \<^verbatim>\<open>docker volume rm\<close> and every \<^verbatim>\<open>rm -rf\<close>; the local staging
  directory cannot be removed either.
\<close>

definition plainPaths :: filepath where
  "plainPaths =
     \<lparr>Dir = (\<lambda>p. rev (tl (dropWhile (\<lambda>ch. ch \<noteq> CHR ''/'') (rev p)))),
      Base = (\<lambda>p. rev (takeWhile (\<lambda>ch. ch \<noteq> CHR ''/'') (rev p))),
      Join = (\<lambda>a b. a @ ''/'' @ b)\<rparr>"

definition failingClient :: Client where
  "failingClient =
     \<lparr>remoteSudo = False,
      respond = (\<lambda>tr cmd.
        if HasPrefix cmd ''docker run'' \<or> HasPrefix cmd ''docker volume rm'' \<or> HasPrefix cmd ''rm -rf''
        then RunFailed ''Process exited with status 1'' ''permission denied''
        else RunOk [])\<rparr>"

definition exampleConfig :: Config where
  "exampleConfig =
     \<lparr>Containers = [''web'', ''worker''], TempDir = ''/tmp/vm-local'', RemoteTempDir = ''/tmp/vm-remote'',
      Interactive = False, Verbose = False, DryRun = False, NoCleanup = False, Force = True\<rparr>"

definition exampleEnv :: Env where
  "exampleEnv =
     \<lparr>NewDockerClient = Inr sharedDocker,
      NewSSHClient = Inr failingClient,
      SelectVolumes = Inr,
      GetLocalDiskSpace = (\<lambda>p. Inl ''statfs failed''),
      parseDf = (\<lambda>out. Inl ''unexpected df output''),
      exportVolumes = (\<lambda>names. Inr (map (\<lambda>n. (n, ''/tmp/vm-local/'' @ n @ ''.tar.gz'')) names)),
      TransferFile = (\<lambda>tr l r. None),
      osRemoveAll = (\<lambda>tr p. Some ''permission denied''),
      fpath = plainPaths,
      FormatBytes = (\<lambda>i. ''?'')\<rparr>"

definition dryRunConfig :: Config where
  "dryRunConfig = exampleConfig\<lparr>DryRun := True\<rparr>"

definition exportFailsEnv :: Env where
  "exportFailsEnv = exampleEnv\<lparr>exportVolumes := (\<lambda>names. Inl ''archive was not created'')\<rparr>"

section \<open>Properties of the path sanitiser\<close>

lemma noDotDot_Contains: "noDotDot s \<longleftrightarrow> \<not> Contains s ''..''"
  by (induction s rule: noDotDot.induct) auto

lemma noDotDot_Cons:
  "noDotDot (c # s) \<longleftrightarrow> \<not> (c = CHR ''.'' \<and> HasPrefix s ''.'') \<and> noDotDot s"
  by (cases s) auto

lemma strip_hd: "\<not> HasPrefix s ''.'' \<Longrightarrow> \<not> HasPrefix (ReplaceAll s ''..'' '''') ''.''"
  by (cases s) auto

lemma strip_noDotDot: "noDotDot (ReplaceAll s ''..'' '''')"
proof (induction s "''..'' :: string" "'''' :: string" rule: ReplaceAll.induct)
  case 1
  then show ?case by simp
next
  case (2 c cs)
  show ?case
  proof (cases "HasPrefix (c # cs) ''..''")
    case True
    then show ?thesis using 2 by simp
  next
    case False
    have "\<not> (c = CHR ''.'' \<and> HasPrefix (ReplaceAll cs ''..'' '''') ''.'')"
    proof
      assume a: "c = CHR ''.'' \<and> HasPrefix (ReplaceAll cs ''..'' '''') ''.''"
      then have "\<not> HasPrefix cs ''.''" using False by (cases cs) auto
      then show False using a strip_hd by blast
    qed
    then show ?thesis using False 2 by (simp add: noDotDot_Cons)
  qed
qed

lemma collapse1_hd_dot:
  "HasPrefix (ReplaceAll s ''//'' ''/'') ''.'' \<Longrightarrow> HasPrefix s ''.''"
  by (cases s) (auto split: if_splits)

lemma collapse1_noDotDot: "noDotDot s \<Longrightarrow> noDotDot (ReplaceAll s ''//'' ''/'')"
proof (induction s "''//'' :: string" "''/'' :: string" rule: ReplaceAll.induct)
  case 1
  then show ?case by simp
next
  case (2 c cs)
  show ?case
  proof (cases "HasPrefix (c # cs) ''//''")
    case True
    then obtain t where cs: "c = CHR ''/''" "cs = CHR ''/'' # t" by (cases cs) auto
    have "noDotDot t" using "2.prems" cs by (simp add: noDotDot_Cons)
    then have "noDotDot (ReplaceAll t ''//'' ''/'')" using "2.hyps"(1) True cs by simp
    then show ?thesis using cs by (simp add: noDotDot_Cons)
  next
    case False
    have n: "noDotDot cs" and h: "\<not> (c = CHR ''.'' \<and> HasPrefix cs ''.'')"
      using "2.prems" by (simp_all add: noDotDot_Cons)
    have "noDotDot (ReplaceAll cs ''//'' ''/'')" using "2.hyps"(2) False n by simp
    moreover have "\<not> (c = CHR ''.'' \<and> HasPrefix (ReplaceAll cs ''//'' ''/'') ''.'')"
      using h collapse1_hd_dot by blast
    ultimately show ?thesis using False by (auto simp: noDotDot_Cons)
  qed
qed

lemma collapse1_slash: "HasPrefix s ''/'' \<Longrightarrow> HasPrefix (ReplaceAll s ''//'' ''/'') ''/''"
  by (cases s) auto

lemma collapseSlashes_noDotDot: "noDotDot s \<Longrightarrow> noDotDot (collapseSlashes s)"
proof (induction s rule: collapseSlashes.induct)
  case (1 path)
  show ?case
  proof (cases "Contains path ''//''")
    case True
    then show ?thesis using 1 collapse1_noDotDot by (subst collapseSlashes.simps) simp
  next
    case False
    then show ?thesis using 1 by (subst collapseSlashes.simps) simp
  qed
qed

lemma collapseSlashes_slash: "HasPrefix s ''/'' \<Longrightarrow> HasPrefix (collapseSlashes s) ''/''"
proof (induction s rule: collapseSlashes.induct)
  case (1 path)
  show ?case
  proof (cases "Contains path ''//''")
    case True
    then show ?thesis using 1 collapse1_slash by (subst collapseSlashes.simps) simp
  next
    case False
    then show ?thesis using 1 by (subst collapseSlashes.simps) simp
  qed
qed

lemma collapseSlashes_no_double: "\<not> Contains (collapseSlashes s) ''//''"
proof (induction s rule: collapseSlashes.induct)
  case (1 path)
  show ?case
  proof (cases "Contains path ''//''")
    case True
    then show ?thesis using 1 by (subst collapseSlashes.simps) simp
  next
    case False
    then show ?thesis by (subst collapseSlashes.simps) simp
  qed
qed


text \<open>
  C6.  For every input, the sanitised path starts with \<^verbatim>\<open>/\<close> and contains no
  \<^verbatim>\<open>..\<close>: the left-to-right removal of \<^verbatim>\<open>..\<close> leaves at most one dot of every run
  of dots, and neither the leading slash nor the collapsing of slashes brings two dots
  together.  The path of the example, \<^verbatim>\<open>/tmp/../../etc/passwd\<close>, becomes
  \<^verbatim>\<open>/tmp/etc/passwd\<close>.
\<close>

theorem SanitizePathForRemote_no_traversal:
  "HasPrefix (SanitizePathForRemote p) ''/'' \<and>
   \<not> Contains (SanitizePathForRemote p) ''..'' \<and>
   SanitizePathForRemote ''/tmp/../../etc/passwd'' = ''/tmp/etc/passwd''"
proof -
  let ?p1 = "ReplaceAll p ''..'' ''''"
  let ?p2 = "if \<not> HasPrefix ?p1 ''/'' then ''/'' @ ?p1 else ?p1"
  have "noDotDot ?p1" by (rule strip_noDotDot)
  then have n2: "noDotDot ?p2" by (simp add: noDotDot_Cons)
  have s2: "HasPrefix ?p2 ''/''" by simp
  have "SanitizePathForRemote p = collapseSlashes ?p2"
    by (simp add: SanitizePathForRemote_def Let_def)
  moreover have "SanitizePathForRemote ''/tmp/../../etc/passwd'' = ''/tmp/etc/passwd''"
    by (simp add: SanitizePathForRemote_def collapseSlashes.simps)
  ultimately show ?thesis
    using collapseSlashes_noDotDot [OF n2] collapseSlashes_slash [OF s2]
    by (simp add: noDotDot_Contains)
qed

theorem SanitizePathForRemote_no_traversal_witness:
  "HasPrefix (SanitizePathForRemote ''a...b/....//c'') ''/'' \<and>
   \<not> Contains (SanitizePathForRemote ''a...b/....//c'') ''..''"
  using SanitizePathForRemote_no_traversal [of "''a...b/....//c''"] by simp


section \<open>Properties of the escaping\<close>

lemma safe_rune_literal: "isSafeRune c \<Longrightarrow> \<not> shSpecial c \<and> c \<noteq> quote \<and> c \<noteq> backslash"
  unfolding isSafeRune_def shSpecial_def by auto

lemma shWord_safe: "list_all isSafeRune s \<Longrightarrow> shWord False s = Some s"
  by (induction s) (auto dest: safe_rune_literal)

lemma shWord_quoted:
  "shWord True (ReplaceAll s [quote] [quote, backslash, quote, quote] @ [quote]) = Some s"
  by (induction s) auto

text \<open>
  C4.  For every string \<open>s\<close>, the shell reads \<^verbatim>\<open>ShellEscape(s)\<close> as one word whose
  value is \<open>s\<close>; the string \<^verbatim>\<open>it's a test\<close> is escaped with the sequence
  quote, backslash, quote, quote in place of its quote and is read back unchanged.
\<close>

theorem ShellEscape_roundtrip:
  "shellToken (ShellEscape s) = Some s \<and>
   ShellEscape (''it'' @ [quote] @ ''s a test'') =
     [quote] @ ''it'' @ [quote, backslash, quote, quote] @ ''s a test'' @ [quote] \<and>
   shellToken (ShellEscape (''it'' @ [quote] @ ''s a test'')) = Some (''it'' @ [quote] @ ''s a test'')"
proof -
  have r: "shellToken (ShellEscape t) = Some t" for t
  proof (cases "isSafeString t")
    case True
    then have "t \<noteq> []" "list_all isSafeRune t"
      by (auto simp: isSafeString_def split: if_splits)
    then show ?thesis using True by (simp add: ShellEscape_def shellToken_def shWord_safe)
  next
    case False
    then show ?thesis by (simp add: ShellEscape_def shellToken_def shWord_quoted)
  qed
  have "ShellEscape (''it'' @ [quote] @ ''s a test'') =
     [quote] @ ''it'' @ [quote, backslash, quote, quote] @ ''s a test'' @ [quote]"
    by (simp add: ShellEscape_def isSafeString_def isSafeRune_def)
  then show ?thesis using r by blast
qed

theorem ShellEscape_roundtrip_witness:
  "shellToken (ShellEscape ''a b; rm -rf $HOME'') = Some ''a b; rm -rf $HOME''"
  using ShellEscape_roundtrip [of "''a b; rm -rf $HOME''"] by simp


section \<open>The protection of system directories\<close>

lemma systemDirs_fixed: "d \<in> set systemDirs \<Longrightarrow> SanitizePathForRemote d = d"
  by (auto simp: systemDirs_def SanitizePathForRemote_def collapseSlashes.simps)

lemma RemoveDirectory_denied:
  "SanitizePathForRemote p \<in> set systemDirs \<Longrightarrow>
     RemoveDirectory c p tr =
       (Inl (''refusing to delete system directory: '' @ SanitizePathForRemote p), tr)"
  by (auto simp: RemoveDirectory_def systemDirs_def Let_def)

lemma RemoveDirectory_allowed:
  "SanitizePathForRemote p \<notin> set systemDirs \<Longrightarrow>
     RemoveDirectory c p tr =
       (case RunCommand c (''rm -rf '' @ ShellEscape (SanitizePathForRemote p)) tr of
          (Inl e, tr') \<Rightarrow> (Inl (''failed to remove directory '' @ p @ '' on remote host: '' @ e), tr')
        | (Inr out, tr') \<Rightarrow> (Inr (), tr'))"
  by (auto simp: RemoveDirectory_def systemDirs_def Let_def)

lemma RunCommand_trace: "snd (RunCommand c cmd tr) = tr @ [Remote cmd]"
  by (simp add: RunCommand_def split: run_outcome.splits)

text \<open>
  C7.  \<^verbatim>\<open>RemoveDirectory\<close> refuses each of the six system directories, \<^verbatim>\<open>/\<close> and
  \<^verbatim>\<open>/etc\<close> among them, with the error ``refusing to delete system directory''.  The
  comparison is made on the sanitised path, so every input that sanitises to one of
  them is refused too, and the refusal leaves the trace as it was: no command has been
  handed to the remote host, whatever the client.
\<close>

theorem RemoveDirectory_refuses_system_dirs:
  "(d \<in> set systemDirs \<longrightarrow>
      RemoveDirectory c d tr = (Inl (''refusing to delete system directory: '' @ d), tr)) \<and>
   (SanitizePathForRemote p \<in> set systemDirs \<longrightarrow>
      RemoveDirectory c p tr =
        (Inl (''refusing to delete system directory: '' @ SanitizePathForRemote p), tr)) \<and>
   RemoveDirectory c ''/'' tr = (Inl ''refusing to delete system directory: /'', tr) \<and>
   RemoveDirectory c ''/etc'' tr = (Inl ''refusing to delete system directory: /etc'', tr)"
proof -
  have a: "RemoveDirectory c d tr = (Inl (''refusing to delete system directory: '' @ d), tr)"
    if "d \<in> set systemDirs" for d
    using that RemoveDirectory_denied [of d c tr] systemDirs_fixed [of d] by simp
  have "''/'' \<in> set systemDirs" "''/etc'' \<in> set systemDirs"
    by (simp_all add: systemDirs_def)
  then show ?thesis using a RemoveDirectory_denied [of p c tr] by fastforce
qed

theorem RemoveDirectory_refuses_system_dirs_witness:
  "''/home'' \<in> set systemDirs \<and>
   SanitizePathForRemote ''..//usr'' \<in> set systemDirs \<and>
   RemoveDirectory idleClient ''/home'' [] =
     (Inl ''refusing to delete system directory: /home'', []) \<and>
   RemoveDirectory idleClient ''..//usr'' [] =
     (Inl ''refusing to delete system directory: /usr'', [])"
proof -
  have s: "SanitizePathForRemote ''..//usr'' = ''/usr''"
    by (simp_all add: SanitizePathForRemote_def collapseSlashes.simps)
  have m: "''/home'' \<in> set systemDirs" "''/usr'' \<in> set systemDirs"
    by (simp_all add: systemDirs_def)
  show ?thesis
    using RemoveDirectory_refuses_system_dirs [of "''/home''" idleClient "[]" "''..//usr''"] s m
    by simp
qed

text \<open>
  C10.  The protection is the comparison of the sanitised path with the six literals
  and nothing more.  For every input whose sanitised path is another string, the
  command \<^verbatim>\<open>rm -rf\<close> with the escaped sanitised path is handed to \<^verbatim>\<open>RunCommand\<close>,
  and the call succeeds exactly when the remote host runs it with success.  The input
  \<^verbatim>\<open>/etc/..\<close> sanitises to \<^verbatim>\<open>/etc/\<close>, which is not on the list, and \<^verbatim>\<open>/root\<close> is not
  either: \<^verbatim>\<open>rm -rf /etc/\<close> and \<^verbatim>\<open>rm -rf /root\<close> are run.
\<close>

theorem RemoveDirectory_exact_match_only:
  "(SanitizePathForRemote p \<notin> set systemDirs \<longrightarrow>
      snd (RemoveDirectory c p tr) =
        tr @ [Remote (''rm -rf '' @ ShellEscape (SanitizePathForRemote p))] \<and>
      (fst (RemoveDirectory c p tr) = Inr () \<longleftrightarrow>
        (\<exists>out. respond c tr (''rm -rf '' @ ShellEscape (SanitizePathForRemote p)) = RunOk out))) \<and>
   SanitizePathForRemote ''/etc/..'' = ''/etc/'' \<and>
   snd (RemoveDirectory c ''/etc/..'' tr) = tr @ [Remote ''rm -rf /etc/''] \<and>
   snd (RemoveDirectory c ''/root'' tr) = tr @ [Remote ''rm -rf /root'']"
proof -
  have g: "snd (RemoveDirectory c q tr) =
             tr @ [Remote (''rm -rf '' @ ShellEscape (SanitizePathForRemote q))] \<and>
           (fst (RemoveDirectory c q tr) = Inr () \<longleftrightarrow>
             (\<exists>out. respond c tr (''rm -rf '' @ ShellEscape (SanitizePathForRemote q)) = RunOk out))"
    if "SanitizePathForRemote q \<notin> set systemDirs" for q
    using RemoveDirectory_allowed [OF that, of c tr]
    by (auto simp: RunCommand_def split: run_outcome.splits)
  have s: "SanitizePathForRemote ''/etc/..'' = ''/etc/''"
    "SanitizePathForRemote ''/root'' = ''/root''"
    by (simp_all add: SanitizePathForRemote_def collapseSlashes.simps)
  have e: "ShellEscape ''/etc/'' = ''/etc/''" "ShellEscape ''/root'' = ''/root''"
    by (simp_all add: ShellEscape_def isSafeString_def isSafeRune_def)
  have n: "''/etc/'' \<notin> set systemDirs" "''/root'' \<notin> set systemDirs"
    by (simp_all add: systemDirs_def)
  have "snd (RemoveDirectory c ''/etc/..'' tr) = tr @ [Remote ''rm -rf /etc/'']"
    using g [of "''/etc/..''"] s e n by simp
  moreover have "snd (RemoveDirectory c ''/root'' tr) = tr @ [Remote ''rm -rf /root'']"
    using g [of "''/root''"] s e n by simp
  ultimately show ?thesis using g [of p] s by blast
qed

theorem RemoveDirectory_exact_match_only_witness:
  "SanitizePathForRemote ''/var/../'' \<notin> set systemDirs \<and>
   snd (RemoveDirectory idleClient ''/var/../'' []) = [Remote ''rm -rf /var/'']"
proof -
  have s: "SanitizePathForRemote ''/var/../'' = ''/var/''"
    by (simp add: SanitizePathForRemote_def collapseSlashes.simps)
  have e: "ShellEscape ''/var/'' = ''/var/''"
    by (simp add: ShellEscape_def isSafeString_def isSafeRune_def)
  have n: "''/var/'' \<notin> set systemDirs" by (simp add: systemDirs_def)
  show ?thesis
    using RemoveDirectory_exact_match_only [of "''/var/../''" idleClient "[]"] s e n by simp
qed

section \<open>Host key verification in accept-new mode\<close>





lemma acceptNew_nil_is_error:
  "callback hostname key = None \<Longrightarrow>
     acceptNewKeyCallback v callback hostname key f =
       (Some (''unexpected host key verification error for '' @ hostname @ '': %!w(<nil>)''), f)"
  by (simp add: acceptNewKeyCallback_def)

text \<open>
  C1.  The trust file holds one record, for \<^verbatim>\<open>example.com:22\<close>.  The library's check
  accepts the recorded key, and the callback of accept-new mode then returns the error
  ``unexpected host key verification error'' where success is due: the statement that
  follows the handling of a non-nil error is reached with the nil one.
\<close>

theorem acceptNew_known_host_gets_error:
  "knownhostsCheck (records exampleFile) ''example.com:22'' exampleKey = None \<and>
   acceptNewVerify exampleVerifier ''example.com:22'' exampleKey exampleFile =
     (Some ''unexpected host key verification error for example.com:22: %!w(<nil>)'',
      exampleFile)"
  by (simp add: acceptNewVerify_def acceptNewKeyCallback_def knownhostsCheck_def
      exampleFile_def exampleKey_def)



section \<open>Volume discovery deduplicates by name\<close>

lemma newVolumeInfo_name [simp]: "volName (newVolumeInfo d c v) = v"
  by (simp add: newVolumeInfo_def Let_def split: prod.splits)

lemma newVolumeInfo_container [simp]: "volContainer (newVolumeInfo d c v) = c"
  by (simp add: newVolumeInfo_def Let_def split: prod.splits)

lemma map_of_None_keys: "map_of m k = None \<longleftrightarrow> k \<notin> fst ` set m"
  by (simp add: map_of_eq_None_iff)

lemma addVolumes_keys: "fst ` set (addVolumes d c vs m) = fst ` set m \<union> set vs"
  by (induction vs arbitrary: m) (auto simp: map_of_None_keys)

lemma addVolumes_distinct:
  "distinct (map fst m) \<Longrightarrow> distinct (map fst (addVolumes d c vs m))"
  by (induction vs arbitrary: m) (auto simp: map_of_None_keys)

lemma addVolumes_entries:
  "(k, v) \<in> set (addVolumes d c vs m) \<Longrightarrow>
     (k, v) \<in> set m \<or>
     (k \<notin> fst ` set m \<and> k \<in> set vs \<and> volName v = k \<and> volContainer v = c)"
proof (induction vs arbitrary: m)
  case Nil
  then show ?case by simp
next
  case (Cons w ws)
  show ?case
  proof (cases "map_of m w = None")
    case False
    then show ?thesis using Cons.IH [of m] Cons.prems by auto
  next
    case True
    then have w: "w \<notin> fst ` set m" by (simp add: map_of_None_keys)
    have "(k, v) \<in> set (addVolumes d c ws (m @ [(w, newVolumeInfo d c w)]))"
      using Cons.prems True by simp
    from Cons.IH [OF this] show ?thesis using w by auto
  qed
qed

lemma collectVolumes_distinct:
  "collectVolumes d cs m = Inr m' \<Longrightarrow> distinct (map fst m) \<Longrightarrow> distinct (map fst m')"
proof (induction cs arbitrary: m)
  case Nil
  then show ?case by simp
next
  case (Cons c cs)
  then show ?case by (auto split: sum.splits intro: addVolumes_distinct)
qed

lemma collectVolumes_keys:
  "collectVolumes d cs m = Inr m' \<Longrightarrow>
     fst ` set m' = fst ` set m \<union> (\<Union>c \<in> set cs. set (volumesOf d c))"
proof (induction cs arbitrary: m)
  case Nil
  then show ?case by simp
next
  case (Cons c cs)
  from Cons.prems obtain vols where l: "ListVolumes d c = Inr vols"
    and r: "collectVolumes d cs (addVolumes d c vols m) = Inr m'"
    by (auto split: sum.splits)
  have "volumesOf d c = vols" using l by (simp add: volumesOf_def)
  then show ?case using Cons.IH [OF r] by (auto simp: addVolumes_keys)
qed

lemma collectVolumes_entries:
  "collectVolumes d cs m = Inr m' \<Longrightarrow> (k, v) \<in> set m' \<Longrightarrow>
     (k, v) \<in> set m \<or>
     (k \<notin> fst ` set m \<and> volName v = k \<and> firstOwner d cs k = Some (volContainer v))"
proof (induction cs arbitrary: m)
  case Nil
  then show ?case by simp
next
  case (Cons c cs)
  from Cons.prems(1) obtain vols where l: "ListVolumes d c = Inr vols"
    and r: "collectVolumes d cs (addVolumes d c vols m) = Inr m'"
    by (auto split: sum.splits)
  have vo: "volumesOf d c = vols" using l by (simp add: volumesOf_def)
  from Cons.IH [OF r Cons.prems(2)] show ?case
  proof
    assume "(k, v) \<in> set (addVolumes d c vols m)"
    from addVolumes_entries [OF this] show ?thesis
      using vo by (auto simp: firstOwner_def)
  next
    assume a: "k \<notin> fst ` set (addVolumes d c vols m) \<and> volName v = k \<and>
               firstOwner d cs k = Some (volContainer v)"
    then have "k \<notin> fst ` set m" "k \<notin> set vols" by (auto simp: addVolumes_keys)
    then show ?thesis using a vo by (auto simp: firstOwner_def)
  qed
qed

text \<open>
  C8.  Whenever the discovery over a list of containers succeeds, every volume name
  occurs once in the result, each entry names as its container the first container of
  the list that refers to the volume, and the names of the result are the names the
  containers refer to.  Over \<^verbatim>\<open>[web, worker]\<close>, which both mount \<^verbatim>\<open>shared\<close>, the result
  is the one entry \<^verbatim>\<open>shared\<close> of the container \<^verbatim>\<open>web\<close>.
\<close>

theorem GetAllVolumesInfo_first_owner_wins:
  "(GetAllVolumesInfo d cs = Inr vs \<longrightarrow>
      distinct (map volName vs) \<and>
      (\<forall>v \<in> set vs. firstOwner d cs (volName v) = Some (volContainer v)) \<and>
      set (map volName vs) = (\<Union>c \<in> set cs. set (volumesOf d c))) \<and>
   GetAllVolumesInfo sharedDocker [''web'', ''worker''] =
     Inr [\<lparr>volName = ''shared'', volContainer = ''web'', volMountPath = ''/srv'',
           volSize = ''1.5MB'', volSizeBytes = 1572864, volSelected = True\<rparr>]"
proof -
  have general: "distinct (map volName vs) \<and>
      (\<forall>v \<in> set vs. firstOwner d cs (volName v) = Some (volContainer v)) \<and>
      set (map volName vs) = (\<Union>c \<in> set cs. set (volumesOf d c))"
    if g: "GetAllVolumesInfo d cs = Inr vs"
  proof -
    from g obtain m where m: "collectVolumes d cs [] = Inr m" and vs: "vs = map snd m"
      by (auto simp: GetAllVolumesInfo_def split: sum.splits)
    have e: "volName v = k \<and> firstOwner d cs k = Some (volContainer v)"
      if "(k, v) \<in> set m" for k v
      using collectVolumes_entries [OF m that] by simp
    have names: "map volName vs = map fst m"
      unfolding vs using e by (induction m) auto
    have "distinct (map fst m)" using collectVolumes_distinct [OF m] by simp
    moreover have "fst ` set m = (\<Union>c \<in> set cs. set (volumesOf d c))"
      using collectVolumes_keys [OF m] by simp
    moreover have "firstOwner d cs (volName v) = Some (volContainer v)" if "v \<in> set vs" for v
    proof -
      from that obtain k where "(k, v) \<in> set m" unfolding vs by auto
      then show ?thesis using e by auto
    qed
    ultimately show ?thesis using names by simp
  qed
  have "GetAllVolumesInfo sharedDocker [''web'', ''worker''] =
     Inr [\<lparr>volName = ''shared'', volContainer = ''web'', volMountPath = ''/srv'',
           volSize = ''1.5MB'', volSizeBytes = 1572864, volSelected = True\<rparr>]"
    by (simp add: GetAllVolumesInfo_def ListVolumes_def sharedDocker_def newVolumeInfo_def
        GetVolumeMountPoints_def)
  then show ?thesis using general by blast
qed

theorem GetAllVolumesInfo_first_owner_wins_witness:
  "GetAllVolumesInfo sharedDocker [''worker'', ''web'', ''worker''] =
     Inr [\<lparr>volName = ''shared'', volContainer = ''worker'', volMountPath = ''/data'',
           volSize = ''1.5MB'', volSizeBytes = 1572864, volSelected = True\<rparr>] \<and>
   firstOwner sharedDocker [''worker'', ''web'', ''worker''] ''shared'' = Some ''worker''"
proof -
  have g: "GetAllVolumesInfo sharedDocker [''worker'', ''web'', ''worker''] =
     Inr [\<lparr>volName = ''shared'', volContainer = ''worker'', volMountPath = ''/data'',
           volSize = ''1.5MB'', volSizeBytes = 1572864, volSelected = True\<rparr>]"
    by (simp add: GetAllVolumesInfo_def ListVolumes_def sharedDocker_def newVolumeInfo_def
        GetVolumeMountPoints_def)
  show ?thesis
    using GetAllVolumesInfo_first_owner_wins
      [of sharedDocker "[''worker'', ''web'', ''worker'']"
          "[\<lparr>volName = ''shared'', volContainer = ''worker'', volMountPath = ''/data'',
             volSize = ''1.5MB'', volSizeBytes = 1572864, volSelected = True\<rparr>]"] g
    by simp
qed

section \<open>A failed import removes the volume and reports the import error\<close>

lemma RunDockerCommand_single:
  "RunDockerCommand c [arg] tr =
     RunCommand c ((if remoteSudo c then ''sudo docker'' else ''docker'') @ '' '' @ arg) tr"
  by (simp add: RunDockerCommand_def)

text \<open>
  C5.  The volume name is valid, the volume has been created on the remote host, and
  the command that fills it from the archive fails with \<open>e\<close>.  Then \<^verbatim>\<open>ImportVolume\<close>
  hands \<^verbatim>\<open>docker volume rm\<close> for this volume to the remote host as its next and last
  command; when the removal fails, a warning with its error is logged and nothing
  else happens, and when it succeeds nothing is logged; in both cases the error
  returned is the one of the import, built from \<open>e\<close>.
\<close>

theorem ImportVolume_compensates_and_keeps_error:
  assumes "ValidateVolumeName volumeName"
    and "RunDockerCommand c [''volume create '' @ volumeName] tr = (Inr created, tr1)"
    and "RunDockerCommand c [importCommand fp volumeName archivePath] tr1 = (Inl e, tr2)"
  shows "fst (ImportVolume fp c volumeName archivePath tr) =
           Some (''failed to import data into volume '' @ volumeName @ '': '' @ e) \<and>
         (\<exists>logged.
            snd (ImportVolume fp c volumeName archivePath tr) =
              tr2 @ [Remote ((if remoteSudo c then ''sudo docker'' else ''docker'') @
                             '' volume rm '' @ volumeName)] @ logged \<and>
            logged =
              (case fst (RunDockerCommand c [''volume rm '' @ volumeName] tr2) of
                 Inl cleanupErr \<Rightarrow>
                   [LogWarn (''Failed to cleanup volume after import failure: '' @ cleanupErr)]
               | Inr removed \<Rightarrow> []))"
proof -
  obtain r tr3 where rm: "RunDockerCommand c [''volume rm '' @ volumeName] tr2 = (r, tr3)"
    by (cases "RunDockerCommand c [''volume rm '' @ volumeName] tr2") auto
  have "tr3 = snd (RunCommand c ((if remoteSudo c then ''sudo docker'' else ''docker'') @
                                  '' volume rm '' @ volumeName) tr2)"
    using rm by (simp add: RunDockerCommand_single)
  then have t: "tr3 = tr2 @ [Remote ((if remoteSudo c then ''sudo docker'' else ''docker'') @
                                      '' volume rm '' @ volumeName)]"
    by (simp only: RunCommand_trace)
  show ?thesis
    using assms rm t by (cases r) (simp_all add: ImportVolume_def)
qed

theorem ImportVolume_compensates_and_keeps_error_witness:
  "ValidateVolumeName ''shared'' \<and>
   RunDockerCommand failingClient [''volume create shared''] [] =
     (Inr [], [Remote ''docker volume create shared'']) \<and>
   fst (ImportVolume plainPaths failingClient ''shared'' ''/tmp/vm-remote/shared.tar.gz'' []) =
     Some (''failed to import data into volume shared: '' @
           ''command failed: Process exited with status 1, stderr: permission denied'') \<and>
   snd (ImportVolume plainPaths failingClient ''shared'' ''/tmp/vm-remote/shared.tar.gz'' []) =
     [Remote ''docker volume create shared'',
      Remote (''docker run --rm -v shared:/data -v /tmp/vm-remote:/backup alpine '' @
              ''tar xzf /backup/shared.tar.gz -C /data''),
      Remote ''docker volume rm shared'',
      LogWarn (''Failed to cleanup volume after import failure: '' @
               ''command failed: Process exited with status 1, stderr: permission denied'')]"
proof -
  have v: "ValidateVolumeName ''shared''"
    by (simp add: ValidateVolumeName_def isNameRune_def)
  have a: "RunDockerCommand failingClient [''volume create '' @ ''shared''] [] =
             (Inr [], [Remote ''docker volume create shared''])"
    by (simp add: RunDockerCommand_def RunCommand_def failingClient_def)
  have b: "RunDockerCommand failingClient
             [importCommand plainPaths ''shared'' ''/tmp/vm-remote/shared.tar.gz'']
             [Remote ''docker volume create shared''] =
             (Inl ''command failed: Process exited with status 1, stderr: permission denied'',
              [Remote ''docker volume create shared'',
               Remote (''docker run --rm -v shared:/data -v /tmp/vm-remote:/backup alpine '' @
                       ''tar xzf /backup/shared.tar.gz -C /data'')])"
    by (simp add: RunDockerCommand_def RunCommand_def failingClient_def importCommand_def
        plainPaths_def)
  have r: "fst (RunDockerCommand failingClient [''volume rm '' @ ''shared'']
             [Remote ''docker volume create shared'',
               Remote (''docker run --rm -v shared:/data -v /tmp/vm-remote:/backup alpine '' @
                       ''tar xzf /backup/shared.tar.gz -C /data'')]) =
           Inl ''command failed: Process exited with status 1, stderr: permission denied''"
    by (simp add: RunDockerCommand_def RunCommand_def failingClient_def)
  have f: "remoteSudo failingClient = False" by (simp add: failingClient_def)
  show ?thesis
    using ImportVolume_compensates_and_keeps_error [OF v a b] v a r f by simp
qed


section \<open>The deferred cleanup of a migration\<close>

lemma sharedDocker_volumes:
  "GetAllVolumesInfo sharedDocker [''web'', ''worker''] =
     Inr [\<lparr>volName = ''shared'', volContainer = ''web'', volMountPath = ''/srv'',
           volSize = ''1.5MB'', volSizeBytes = 1572864, volSelected = True\<rparr>]"
  by (simp add: GetAllVolumesInfo_def ListVolumes_def sharedDocker_def newVolumeInfo_def
      GetVolumeMountPoints_def)

lemma example_prepared:
  "migratePrepare exampleConfig exampleEnv =
     Exported failingClient [(''shared'', ''/tmp/vm-local/shared.tar.gz'')]
       [LogWarn ''Skipping disk space validation (--force enabled)'']"
  by (simp add: migratePrepare_def exampleConfig_def exampleEnv_def sharedDocker_volumes
      validateSpace_def)

lemma example_export_fails:
  "migratePrepare exampleConfig exportFailsEnv =
     Finished (Some ''failed to export volumes: archive was not created'',
               [LogWarn ''Skipping disk space validation (--force enabled)'', CloseSSH])"
  by (simp add: migratePrepare_def exampleConfig_def exportFailsEnv_def exampleEnv_def
      sharedDocker_volumes validateSpace_def)

lemma example_remote_dir:
  "SanitizePathForRemote ''/tmp/vm-remote'' = ''/tmp/vm-remote''"
  "ShellEscape ''/tmp/vm-remote'' = ''/tmp/vm-remote''"
  by (simp_all add: SanitizePathForRemote_def collapseSlashes.simps ShellEscape_def
      isSafeString_def isSafeRune_def)

lemma example_delivery:
  "migrateDeliver exampleConfig exampleEnv failingClient
     [(''shared'', ''/tmp/vm-local/shared.tar.gz'')]
     [LogWarn ''Skipping disk space validation (--force enabled)''] =
   (Some (''failed to import volumes: failed to import volume shared: '' @
          ''failed to import data into volume shared: '' @
          ''command failed: Process exited with status 1, stderr: permission denied''),
    [LogWarn ''Skipping disk space validation (--force enabled)'',
     Remote ''mkdir -p /tmp/vm-remote'',
     Remote ''docker volume create shared'',
     Remote (''docker run --rm -v shared:/data -v /tmp/vm-remote:/backup alpine '' @
             ''tar xzf /backup/shared.tar.gz -C /data''),
     Remote ''docker volume rm shared'',
     LogWarn (''Failed to cleanup volume after import failure: '' @
              ''command failed: Process exited with status 1, stderr: permission denied'')])"
  by (simp add: migrateDeliver_def transferVolumes_def CreateDirectory_def exampleConfig_def
      exampleEnv_def RunCommand_def failingClient_def ImportVolume_def RunDockerCommand_def
      plainPaths_def importCommand_def example_remote_dir ValidateVolumeName_def isNameRune_def)

lemma CleanupLocal_trace:
  "CleanupLocal env dir t =
     (map_option (\<lambda>e. ''failed to clean up local temp directory: '' @ e) (osRemoveAll env t dir),
      t @ [LocalRemoveAll dir])"
  by (simp add: CleanupLocal_def split: option.splits)

lemma CleanupRemote_denied:
  "SanitizePathForRemote dir \<in> set systemDirs \<Longrightarrow>
     CleanupRemote c dir t =
       (Some (''failed to clean up remote temp directory: '' @
              ''refusing to delete system directory: '' @ SanitizePathForRemote dir), t)"
  by (simp add: CleanupRemote_def RemoveDirectory_denied)

lemma CleanupRemote_allowed:
  "SanitizePathForRemote dir \<notin> set systemDirs \<Longrightarrow>
     snd (CleanupRemote c dir t) =
       t @ [Remote (''rm -rf '' @ ShellEscape (SanitizePathForRemote dir))] \<and>
     (fst (CleanupRemote c dir t) = None \<longleftrightarrow>
        (\<exists>out. respond c t (''rm -rf '' @ ShellEscape (SanitizePathForRemote dir)) = RunOk out)) \<and>
     (\<forall>e. fst (CleanupRemote c dir t) = Some e \<longrightarrow>
        HasPrefix e ''failed to clean up remote temp directory: '')"
  by (simp add: CleanupRemote_def RemoveDirectory_allowed RunCommand_def
      split: run_outcome.splits)

lemma example_dry_run:
  "migratePrepare dryRunConfig exampleEnv =
     Finished (None, [LogWarn ''Skipping disk space validation (--force enabled)'', CloseSSH])"
  by (simp add: migratePrepare_def dryRunConfig_def exampleConfig_def exampleEnv_def
      sharedDocker_volumes validateSpace_def)

text \<open>
  C3, as stated, fails.  In the first run below cleanup is not disabled and the export
  fails: \<^verbatim>\<open>Migrate\<close> returns the export error, and neither the local staging directory
  nor the remote one is removed; the trace holds the skipped validation and the
  closing of the connection only.  The second run is a dry run, which returns before
  the export: it removes nothing either.
\<close>

theorem Migrate_export_failure_skips_cleanup:
  "\<not> NoCleanup exampleConfig \<and>
   Migrate exampleConfig exportFailsEnv =
     (Some ''failed to export volumes: archive was not created'',
      [LogWarn ''Skipping disk space validation (--force enabled)'', CloseSSH]) \<and>
   LocalRemoveAll (TempDir exampleConfig) \<notin> set (snd (Migrate exampleConfig exportFailsEnv)) \<and>
   Remote ''rm -rf /tmp/vm-remote'' \<notin> set (snd (Migrate exampleConfig exportFailsEnv)) \<and>
   \<not> NoCleanup dryRunConfig \<and>
   Migrate dryRunConfig exampleEnv =
     (None, [LogWarn ''Skipping disk space validation (--force enabled)'', CloseSSH]) \<and>
   LocalRemoveAll (TempDir dryRunConfig) \<notin> set (snd (Migrate dryRunConfig exampleEnv))"
proof -
  have m: "Migrate exampleConfig exportFailsEnv =
     (Some ''failed to export volumes: archive was not created'',
      [LogWarn ''Skipping disk space validation (--force enabled)'', CloseSSH])"
    by (simp add: Migrate_def example_export_fails)
  have d: "Migrate dryRunConfig exampleEnv =
     (None, [LogWarn ''Skipping disk space validation (--force enabled)'', CloseSSH])"
    by (simp add: Migrate_def example_dry_run)
  have "\<not> NoCleanup exampleConfig" "\<not> NoCleanup dryRunConfig"
    by (simp_all add: exampleConfig_def dryRunConfig_def)
  then show ?thesis unfolding m d by simp
qed

text \<open>
  C3, amended.  When cleanup is not disabled and \<^verbatim>\<open>Migrate\<close> has exported the archives,
  the result of \<^verbatim>\<open>Migrate\<close> is the outcome of the transfer and the import, whatever the
  cleanup does; and after the transfer and the import, failed or not, the local
  staging directory is removed with \<^verbatim>\<open>os.RemoveAll\<close>, then the removal of the remote
  one is requested with \<^verbatim>\<open>rm -rf\<close> (or refused, and the refusal logged, when its path
  sanitises to a system directory), a failure of either is written to the error log,
  and the connection is closed.
\<close>

theorem Migrate_cleanup_after_export:
  assumes "\<not> NoCleanup cfg"
    and "migratePrepare cfg env = Exported c archivePaths tr"
    and "migrateDeliver cfg env c archivePaths tr = (result, tr')"
  shows "fst (Migrate cfg env) = result \<and>
         (\<exists>localLog remoteLog.
            snd (Migrate cfg env) =
              tr' @ [LocalRemoveAll (TempDir cfg)] @ localLog @ remoteLog @ [CloseSSH] \<and>
            localLog =
              (case osRemoveAll env tr' (TempDir cfg) of
                 Some e \<Rightarrow> [LogError (''Failed to cleanup local temporary directory: '' @
                                      ''failed to clean up local temp directory: '' @ e)]
               | None \<Rightarrow> []) \<and>
            (if SanitizePathForRemote (RemoteTempDir cfg) \<in> set systemDirs
             then remoteLog =
                    [LogError (''Failed to cleanup remote temporary directory: '' @
                               ''failed to clean up remote temp directory: '' @
                               ''refusing to delete system directory: '' @
                               SanitizePathForRemote (RemoteTempDir cfg))]
             else \<exists>failure.
                    remoteLog =
                      Remote (''rm -rf '' @ ShellEscape (SanitizePathForRemote (RemoteTempDir cfg)))
                        # failure \<and>
                    (failure = [] \<or>
                     (\<exists>e. failure = [LogError (''Failed to cleanup remote temporary directory: '' @ e)])) \<and>
                    (failure = [] \<longleftrightarrow>
                       (\<exists>out. respond c (tr' @ [LocalRemoveAll (TempDir cfg)] @ localLog)
                                 (''rm -rf '' @ ShellEscape (SanitizePathForRemote (RemoteTempDir cfg)))
                               = RunOk out))))"
proof -
  let ?localLog = "case osRemoveAll env tr' (TempDir cfg) of
                 Some e \<Rightarrow> [LogError (''Failed to cleanup local temporary directory: '' @
                                      ''failed to clean up local temp directory: '' @ e)]
               | None \<Rightarrow> []"
  let ?t1 = "tr' @ [LocalRemoveAll (TempDir cfg)] @ ?localLog"
  let ?dir = "SanitizePathForRemote (RemoteTempDir cfg)"
  let ?cmd = "''rm -rf '' @ ShellEscape ?dir"
  have m: "Migrate cfg env = (result, deferredCleanup cfg env c tr' @ [CloseSSH])"
    using assms by (simp add: Migrate_def)
  have l: "(case CleanupLocal env (TempDir cfg) tr' of
              (Some e, t) \<Rightarrow> t @ [LogError (''Failed to cleanup local temporary directory: '' @ e)]
            | (None, t) \<Rightarrow> t) = ?t1"
    by (simp add: CleanupLocal_trace split: option.splits)
  have d: "deferredCleanup cfg env c tr' =
             (case CleanupRemote c (RemoteTempDir cfg) ?t1 of
                (Some e, t) \<Rightarrow> t @ [LogError (''Failed to cleanup remote temporary directory: '' @ e)]
              | (None, t) \<Rightarrow> t)"
    unfolding deferredCleanup_def Let_def l ..
  show ?thesis
  proof (cases "?dir \<in> set systemDirs")
    case True
    have "deferredCleanup cfg env c tr' =
            ?t1 @ [LogError (''Failed to cleanup remote temporary directory: '' @
                               ''failed to clean up remote temp directory: '' @
                               ''refusing to delete system directory: '' @ ?dir)]"
      unfolding d by (simp add: CleanupRemote_denied [OF True])
    then show ?thesis using True m by simp
  next
    case False
    obtain r t where cr: "CleanupRemote c (RemoteTempDir cfg) ?t1 = (r, t)"
      by (cases "CleanupRemote c (RemoteTempDir cfg) ?t1") auto
    from CleanupRemote_allowed [OF False, of c ?t1] cr
    have t: "t = ?t1 @ [Remote ?cmd]"
      and ok: "r = None \<longleftrightarrow> (\<exists>out. respond c ?t1 ?cmd = RunOk out)"
      by simp_all
    let ?failure = "case r of Some e \<Rightarrow> [LogError (''Failed to cleanup remote temporary directory: '' @ e)]
                    | None \<Rightarrow> []"
    have dd: "deferredCleanup cfg env c tr' = ?t1 @ Remote ?cmd # ?failure"
      unfolding d cr t by (cases r) simp_all
    have f1: "?failure = [] \<or>
              (\<exists>e. ?failure = [LogError (''Failed to cleanup remote temporary directory: '' @ e)])"
      by (cases r) simp_all
    have f2: "?failure = [] \<longleftrightarrow> (\<exists>out. respond c ?t1 ?cmd = RunOk out)"
      using ok by (cases r) simp_all
    have tr: "snd (Migrate cfg env) =
                tr' @ [LocalRemoveAll (TempDir cfg)] @ ?localLog @ (Remote ?cmd # ?failure) @ [CloseSSH]"
      using m dd by simp
    have res: "fst (Migrate cfg env) = result" using m by simp
    show ?thesis
      apply (rule conjI [OF res])
      apply (rule exI [of _ ?localLog])
      apply (rule exI [of _ "Remote ?cmd # ?failure"])
      apply (rule conjI [OF tr])
      apply (rule conjI [OF refl])
      apply (simp only: False if_False)
      apply (rule exI [of _ ?failure])
      apply (rule conjI [OF refl])
      apply (rule conjI [OF f1])
      apply (rule f2)
      done
  qed
qed

theorem Migrate_cleanup_after_export_witness:
  "\<not> NoCleanup exampleConfig \<and>
   migratePrepare exampleConfig exampleEnv =
     Exported failingClient [(''shared'', ''/tmp/vm-local/shared.tar.gz'')]
       [LogWarn ''Skipping disk space validation (--force enabled)''] \<and>
   fst (Migrate exampleConfig exampleEnv) =
     Some (''failed to import volumes: failed to import volume shared: '' @
           ''failed to import data into volume shared: '' @
           ''command failed: Process exited with status 1, stderr: permission denied'') \<and>
   LocalRemoveAll ''/tmp/vm-local'' \<in> set (snd (Migrate exampleConfig exampleEnv)) \<and>
   Remote ''rm -rf /tmp/vm-remote'' \<in> set (snd (Migrate exampleConfig exampleEnv)) \<and>
   last (snd (Migrate exampleConfig exampleEnv)) = CloseSSH"
proof -
  have nc: "\<not> NoCleanup exampleConfig" by (simp add: exampleConfig_def)
  have dirs: "TempDir exampleConfig = ''/tmp/vm-local''"
    "RemoteTempDir exampleConfig = ''/tmp/vm-remote''"
    by (simp_all add: exampleConfig_def)
  have ns: "''/tmp/vm-remote'' \<notin> set systemDirs" by (simp add: systemDirs_def)
  show ?thesis
    using Migrate_cleanup_after_export [OF nc example_prepared example_delivery]
      nc example_prepared
    by (auto simp: dirs example_remote_dir ns)
qed

section \<open>The space estimate is the size and a tenth\<close>

lemma bitlen_0 [simp]: "bitlen 0 = 0"
  by (subst bitlen.simps) simp

lemma bitlen_pos: "0 < n \<Longrightarrow> bitlen n = Suc (bitlen (n div 2))"
  by (subst bitlen.simps) simp

lemma bitlen_Suc0 [simp]: "bitlen (Suc 0) = Suc 0"
  by (simp add: bitlen_pos)

lemma bitlen_One [simp]: "bitlen (numeral Num.One) = Suc 0"
  using bitlen_Suc0 by simp

lemma bitlen_Bit0 [simp]: "bitlen (numeral (Num.Bit0 n)) = Suc (bitlen (numeral n))"
  by (subst bitlen.simps) simp

lemma bitlen_Bit1 [simp]: "bitlen (numeral (Num.Bit1 n)) = Suc (bitlen (numeral n))"
  by (subst bitlen.simps) simp

lemma bitlen_upper: "n < 2 ^ bitlen n"
proof (induction n rule: bitlen.induct)
  case (1 n)
  show ?case
  proof (cases "n = 0")
    case True
    then show ?thesis by simp
  next
    case False
    then have "n div 2 < 2 ^ bitlen (n div 2)" using 1 by simp
    then have "n < 2 * 2 ^ bitlen (n div 2)" by linarith
    then show ?thesis using False by (simp add: bitlen_pos)
  qed
qed

lemma bitlen_lower: "0 < n \<Longrightarrow> 2 ^ bitlen n \<le> 2 * n"
proof (induction n rule: bitlen.induct)
  case (1 n)
  show ?case
  proof (cases "n div 2 = 0")
    case True
    then have "n = 1" using "1.prems" by linarith
    then show ?thesis by simp
  next
    case False
    then have "2 ^ bitlen (n div 2) \<le> 2 * (n div 2)" using 1 by simp
    then have "2 * 2 ^ bitlen (n div 2) \<le> 2 * n" by linarith
    then show ?thesis using "1.prems" by (simp add: bitlen_pos)
  qed
qed

lemma bitlen_le: "n < 2 ^ k \<Longrightarrow> bitlen n \<le> k"
proof (cases "n = 0")
  case True
  then show ?thesis by simp
next
  case False
  assume "n < 2 ^ k"
  moreover have "(2::nat) ^ bitlen n \<le> 2 * n" using False by (simp add: bitlen_lower)
  ultimately have "(2::nat) ^ bitlen n < 2 ^ Suc k" by simp
  then have "bitlen n < Suc k" using power_less_imp_less_exp [of 2 "bitlen n" "Suc k"] by simp
  then show ?thesis by simp
qed

lemma roundShift_0 [simp]: "roundShift n 0 = n"
  by (simp add: roundShift_def)

lemma roundShift_bounds: "n div 2 ^ s \<le> roundShift n s \<and> roundShift n s \<le> n div 2 ^ s + 1"
  by (simp add: roundShift_def Let_def)

lemma round53_shift:
  "round53 neg m e = (neg, roundShift m (bitlen m - 53), e + int (bitlen m - 53))"
  by (simp add: round53_def)

lemma required_space_nat:
  fixes N :: nat
  assumes "N < 2 ^ 47"
  defines "a \<equiv> N * 4953959590107546"
  defines "s \<equiv> bitlen a - 53"
  shows "s \<le> 52 \<and> roundShift a s div 2 ^ (52 - s) = 11 * N div 10"
proof (cases "N = 0")
  case True
  then show ?thesis by (simp add: a_def s_def)
next
  case False
  define L where "L = 11 * N div 10"
  define P :: nat where "P = 2 ^ s"
  define q where "q = roundShift a s"
  have L1: "10 * L \<le> 11 * N" and L2: "11 * N + 1 \<le> 10 * L + 10"
    unfolding L_def by linarith+
  have "a < 2 ^ bitlen N * 2 ^ 53"
  proof -
    have "N < 2 ^ bitlen N" by (rule bitlen_upper)
    then have "N * 4953959590107546 < 2 ^ bitlen N * 4953959590107546" by simp
    also have "\<dots> \<le> 2 ^ bitlen N * 2 ^ 53" by simp
    finally show ?thesis by (simp add: a_def)
  qed
  then have "a < 2 ^ (bitlen N + 53)" by (simp add: power_add)
  then have "bitlen a \<le> bitlen N + 53" by (rule bitlen_le)
  then have sN: "s \<le> bitlen N" by (simp add: s_def)
  have "bitlen N \<le> 47" using assms(1) by (rule bitlen_le)
  then have s47: "s \<le> 47" using sN by simp
  have "P \<le> 2 ^ bitlen N" unfolding P_def using sN by (simp add: power_increasing)
  also have "\<dots> \<le> 2 * N" using False by (simp add: bitlen_lower)
  finally have P2: "P \<le> 2 * N" .
  have N47: "N < 140737488355328" using assms(1) by simp
  have lower: "L * 4503599627370496 \<le> a"
    unfolding a_def using L1 by linarith
  have "(11 * N + 1) * 4503599627370496 \<le> (10 * L + 10) * 4503599627370496"
    using L2 by (rule mult_le_mono1)
  then have h: "49539595901075456 * N + 4503599627370496 \<le> 45035996273704960 * L + 45035996273704960"
    by (simp add: algebra_simps)
  have upper: "a + P < (L + 1) * 4503599627370496"
  proof -
    have "10 * (N * 4953959590107546 + P) \<le> 49539595901075460 * N + 20 * N"
      using P2 by simp
    also have "\<dots> < 49539595901075456 * N + 4503599627370496"
      using N47 by simp
    also have "\<dots> \<le> 10 * ((L + 1) * 4503599627370496)"
      using h by simp
    finally show ?thesis by (simp add: a_def)
  qed
  have split: "(2::nat) ^ (52 - s) * 2 ^ s = 4503599627370496"
  proof -
    have "(2::nat) ^ (52 - s) * 2 ^ s = 2 ^ 52" using s47 by (simp flip: power_add)
    then show ?thesis by simp
  qed
  have Ppos: "0 < P" by (simp add: P_def)
  have qb: "a div P \<le> q" "q \<le> a div P + 1"
    using roundShift_bounds [of a s] by (simp_all add: q_def P_def)
  have "L * 2 ^ (52 - s) * P = L * (2 ^ (52 - s) * 2 ^ s)"
    by (simp only: P_def mult.assoc)
  then have "L * 2 ^ (52 - s) * P \<le> a"
    using lower by (simp only: split)
  then have "L * 2 ^ (52 - s) \<le> a div P"
    using Ppos by (simp add: less_eq_div_iff_mult_less_eq)
  then have lo: "2 ^ (52 - s) * L \<le> q" using qb(1) by (simp add: mult.commute)
  have "(a div P + 1) * P \<le> a + P" by (simp add: add_mult_distrib)
  also have "\<dots> < (L + 1) * 4503599627370496" by (rule upper)
  also have "\<dots> = (L + 1) * (2 ^ (52 - s) * 2 ^ s)"
    by (simp only: split)
  also have "\<dots> = (L + 1) * 2 ^ (52 - s) * P"
    by (simp only: P_def mult.assoc)
  finally have "(a div P + 1) * P < (L + 1) * 2 ^ (52 - s) * P" .
  then have "a div P + 1 < (L + 1) * 2 ^ (52 - s)" by (simp only: mult_less_cancel2)
  then have hi: "q < 2 ^ (52 - s) * Suc L" using qb(2) by (simp add: mult.commute)
  have "q div 2 ^ (52 - s) = L" using lo hi by (rule div_nat_eqI)
  then show ?thesis using s47 by (simp add: q_def L_def)
qed

lemma float64_of_small:
  assumes "N < 2 ^ 47"
  shows "float64_of_int (int N) = (False, N, 0)"
proof -
  have "bitlen N \<le> 47" using assms by (rule bitlen_le)
  then show ?thesis by (simp add: float64_of_int_def round53_def)
qed

lemma mul_buffer:
  "float64_mul (False, N, 0) buffer =
     (False, roundShift (N * 4953959590107546) (bitlen (N * 4953959590107546) - 53),
      int (bitlen (N * 4953959590107546) - 53) - 52)"
  by (simp add: float64_mul_def buffer_def round53_shift)

lemma to_int64:
  assumes "s \<le> 52" and "q div 2 ^ (52 - s) = L" and "L < 2 ^ 63"
  shows "int64_of_float64 (False, q, int s - 52) = int L"
proof -
  have "int q div 2 ^ (52 - s) = int (q div 2 ^ (52 - s))" by (simp add: zdiv_int)
  then have v: "int q div 2 ^ (52 - s) = int L" using assms(2) by simp
  have b: "int L < 2 ^ 63" using assms(3) by (simp add: of_nat_less_iff [symmetric] del: of_nat_less_iff)
  have p: "- (2 ^ 63) \<le> int L" by (rule order_trans [of _ 0]) simp_all
  show ?thesis
  proof (cases "s = 52")
    case True
    then show ?thesis using v b p by (simp add: int64_of_float64_def)
  next
    case False
    then have "\<not> 0 \<le> int s - 52" "nat (52 - int s) = 52 - s" using assms(1) by simp_all
    then show ?thesis using v b p by (simp add: int64_of_float64_def Let_def)
  qed
qed

text \<open>
  C9.  The estimate is the product of the size and the \<^verbatim>\<open>float64\<close> constant 1.10,
  rounded as the hardware rounds and cut to an integer.  For every size from 0 up to
  \<open>2 ^ 47\<close> bytes (128 TiB) this is exactly the size times 11 divided by 10, rounded
  down: the rounding of the product never reaches the next integer at these
  magnitudes.  For 1000000 bytes the estimate is exactly 1100000.
\<close>

theorem CalculateRequiredSpace_ten_percent:
  "(0 \<le> n \<and> n < 2 ^ 47 \<longrightarrow> CalculateRequiredSpace n = 11 * n div 10) \<and>
   CalculateRequiredSpace 1000000 = 1100000"
proof -
  have g: "CalculateRequiredSpace n = 11 * n div 10" if "0 \<le> n" and "n < 2 ^ 47" for n
  proof -
    define N where "N = nat n"
    have n: "n = int N" and N: "N < 2 ^ 47" using that by (simp_all add: N_def)
    define a where "a = N * 4953959590107546"
    define s where "s = bitlen a - 53"
    have r: "s \<le> 52" "roundShift a s div 2 ^ (52 - s) = 11 * N div 10"
      using required_space_nat [OF N] by (simp_all add: a_def s_def)
    have "11 * N div 10 \<le> 11 * N" by simp
    also have "\<dots> < 11 * 2 ^ 47" using N by simp
    also have "\<dots> \<le> 2 ^ 63" by simp
    finally have b: "11 * N div 10 < 2 ^ 63" .
    have "CalculateRequiredSpace n = int64_of_float64 (False, roundShift a s, int s - 52)"
      unfolding CalculateRequiredSpace_def n float64_of_small [OF N] mul_buffer a_def s_def ..
    also have "\<dots> = int (11 * N div 10)" using r b by (rule to_int64)
    also have "\<dots> = 11 * n div 10" by (simp add: n zdiv_int)
    finally show ?thesis .
  qed
  have "CalculateRequiredSpace 1000000 = 11 * 1000000 div 10"
    by (rule g) simp_all
  then show ?thesis using g by simp
qed

theorem CalculateRequiredSpace_ten_percent_witness:
  "(0::int) \<le> 1048576 \<and> (1048576::int) < 2 ^ 47 \<and> CalculateRequiredSpace 1048576 = 1153433"
  using CalculateRequiredSpace_ten_percent [of 1048576] by simp

end
